theory Spec2Isabelle
  imports Main "HOL-Library.Sublist"
begin

section \<open>JavaScript values\<close>

text \<open>
  A JavaScript string is a sequence of UTF-16 code units, and \<open>length\<close>, \<open>substring\<close>,
  \<open>includes\<close> and the regular expressions of \<open>server_v6.js\<close> (none has the \<open>u\<close> flag) all
  count code units. A string is therefore a list of code units, each a natural number;
  \<open>js ''abc''\<close> is the string of an ASCII literal, and a character beyond ASCII is written
  as its code unit.
\<close>

type_synonym jsstring = "nat list"

abbreviation js :: "string \<Rightarrow> jsstring" where
  "js s \<equiv> map of_char s"

text \<open>
  A call either returns a value or throws; an \<open>await\<close> of a rejected promise throws as
  well. \<open>Thrown\<close> carries the \<open>message\<close> of the error.
\<close>

datatype 'a outcome = Returned 'a | Thrown jsstring

definition includesStr :: "jsstring \<Rightarrow> jsstring \<Rightarrow> bool" where
  \<comment> \<open>\<open>s.includes(t)\<close>\<close>
  "includesStr s t = sublist t s"

definition startsWith :: "jsstring \<Rightarrow> jsstring \<Rightarrow> bool" where
  \<comment> \<open>\<open>s.startsWith(t)\<close>\<close>
  "startsWith s t = prefix t s"

definition lowerUnit :: "nat \<Rightarrow> nat" where
  "lowerUnit c = (if 65 \<le> c \<and> c \<le> 90 then c + 32 else c)"

definition toLowerCase :: "jsstring \<Rightarrow> jsstring" where
  \<comment> \<open>\<open>s.toLowerCase()\<close> on the letters A to Z; the code units beyond ASCII are left as
      they are. The source lowercases a hostname, which the URL parser returns in ASCII,
      and a title that it then searches for the ASCII word \<open>error\<close>.\<close>
  "toLowerCase s = map lowerUnit s"

definition isWhiteSpace :: "nat \<Rightarrow> bool" where
  \<comment> \<open>WhiteSpace and LineTerminator of ECMAScript: what \<open>trim\<close> strips and \<open>\s\<close> matches\<close>
  "isWhiteSpace c \<longleftrightarrow>
     (9 \<le> c \<and> c \<le> 13) \<or> c = 32 \<or> c = 160 \<or> c = 0x1680 \<or> (0x2000 \<le> c \<and> c \<le> 0x200A)
     \<or> c = 0x2028 \<or> c = 0x2029 \<or> c = 0x202F \<or> c = 0x205F \<or> c = 0x3000 \<or> c = 0xFEFF"

definition trim :: "jsstring \<Rightarrow> jsstring" where
  \<comment> \<open>\<open>s.trim()\<close>\<close>
  "trim s = rev (dropWhile isWhiteSpace (rev (dropWhile isWhiteSpace s)))"

definition substring :: "jsstring \<Rightarrow> nat \<Rightarrow> nat \<Rightarrow> jsstring" where
  \<comment> \<open>\<open>s.substring(a, b)\<close> for \<open>a \<le> b\<close>\<close>
  "substring s a b = take (b - a) (drop a s)"

subsection \<open>Regular expressions\<close>

text \<open>
  The regular expressions of the source, as syntax trees, and the backtracking matcher
  of ECMAScript for them: \<open>rmatch r s\<close> lists, in the order in which backtracking tries
  them, the rests of \<open>s\<close> after a match of \<open>r\<close> at the start of \<open>s\<close>. Quantifiers are
  greedy, an alternative tries its left side first, and an iteration of \<open>*\<close> that
  consumed nothing is given up. A class is a list of inclusive ranges of code units.
\<close>

datatype regex =
    Class "(nat \<times> nat) list"
  | Eps
  | Seq regex regex
  | Alt regex regex
  | Star regex

definition inClass :: "(nat \<times> nat) list \<Rightarrow> nat \<Rightarrow> bool" where
  "inClass rs c = list_ex (\<lambda>(lo, hi). lo \<le> c \<and> c \<le> hi) rs"

fun rmatch :: "regex \<Rightarrow> jsstring \<Rightarrow> jsstring list" where
  "rmatch (Class rs) s = (case s of [] \<Rightarrow> [] | c # t \<Rightarrow> if inClass rs c then [t] else [])"
| "rmatch Eps s = [s]"
| "rmatch (Seq a b) s = concat (map (rmatch b) (rmatch a s))"
| "rmatch (Alt a b) s = rmatch a s @ rmatch b s"
| "rmatch (Star a) s =
     concat (map (\<lambda>t. if length t < length s then rmatch (Star a) t else []) (rmatch a s)) @ [s]"

fun search :: "regex \<Rightarrow> jsstring \<Rightarrow> jsstring option" where
  \<comment> \<open>\<open>s.match(r)\<close> for a regex without the \<open>g\<close> flag: element 0 of the result, the
      leftmost match, or \<open>None\<close> for \<open>null\<close>\<close>
  "search r [] = (case rmatch r [] of [] \<Rightarrow> None | t # _ \<Rightarrow> Some [])"
| "search r (c # s) =
     (case rmatch r (c # s) of
        [] \<Rightarrow> search r s
      | t # _ \<Rightarrow> Some (take (length (c # s) - length t) (c # s)))"

definition codeUnit :: "char \<Rightarrow> regex" where
  "codeUnit c = Class [(of_char c, of_char c)]"

definition lit :: "string \<Rightarrow> regex" where
  "lit s = foldr (\<lambda>c r. Seq (codeUnit c) r) s Eps"

definition optional :: "regex \<Rightarrow> regex" where
  \<comment> \<open>\<open>r?\<close>\<close>
  "optional r = Alt r Eps"

definition oneOrMore :: "regex \<Rightarrow> regex" where
  \<comment> \<open>\<open>r+\<close>\<close>
  "oneOrMore r = Seq r (Star r)"

definition digit :: regex where
  \<comment> \<open>\<open>\d\<close>\<close>
  "digit = Class [(48, 57)]"

definition space :: regex where
  \<comment> \<open>\<open>\s\<close>\<close>
  "space = Class [(9, 13), (32, 32), (160, 160), (0x1680, 0x1680), (0x2000, 0x200A),
     (0x2028, 0x2029), (0x202F, 0x202F), (0x205F, 0x205F), (0x3000, 0x3000), (0xFEFF, 0xFEFF)]"

definition dotOrComma :: regex where
  \<comment> \<open>\<open>[.,]\<close>\<close>
  "dotOrComma = Class [(46, 46), (44, 44)]"

definition realAmount :: regex where
  \<comment> \<open>\<open>\s*\d{1,3}(?:[.,]\d{3})*(?:[.,]\d{2})?\<close>\<close>
  "realAmount =
     Seq (Star space)
    (Seq (Seq digit (optional (Seq digit (optional digit))))
    (Seq (Star (Seq dotOrComma (Seq digit (Seq digit digit))))
         (optional (Seq dotOrComma (Seq digit digit)))))"

definition dollarAmount :: regex where
  \<comment> \<open>\<open>\s*\d+[.,]?\d*\<close>\<close>
  "dollarAmount = Seq (Star space) (Seq (oneOrMore digit) (Seq (optional dotOrComma) (Star digit)))"

definition priceRegex :: regex where
  \<comment> \<open>\<open>/R\$\s*\d{1,3}(?:[.,]\d{3})*(?:[.,]\d{2})?|USD\s*\d+[.,]?\d*|\$\s*\d+[.,]?\d*/\<close>\<close>
  "priceRegex =
     Alt (Seq (lit ''R$'') realAmount)
    (Alt (Seq (lit ''USD'') dollarAmount)
         (Seq (lit ''$'') dollarAmount))"

definition letter :: "(nat \<times> nat) list" where
  \<comment> \<open>\<open>a-zA-Z\<close>\<close>
  "letter = [(97, 122), (65, 90)]"

definition emailRegex :: regex where
  \<comment> \<open>\<open>/[a-zA-Z0-9._%+-]+@[a-zA-Z0-9.-]+\.[a-zA-Z]{2,}/\<close>\<close>
  "emailRegex =
     Seq (oneOrMore (Class (letter @ [(48, 57), (46, 46), (95, 95), (37, 37), (43, 43), (45, 45)])))
    (Seq (lit ''@'')
    (Seq (oneOrMore (Class (letter @ [(48, 57), (46, 46), (45, 45)])))
    (Seq (lit ''.'')
    (Seq (Class letter) (Seq (Class letter) (Star (Class letter)))))))"

definition phoneTail :: regex where
  \<comment> \<open>\<open>\s*\d{4,5}-?\d{4}\<close>\<close>
  "phoneTail =
     Seq (Star space)
    (Seq (Seq digit (Seq digit (Seq digit (Seq digit (optional digit)))))
    (Seq (optional (lit ''-'')) (Seq digit (Seq digit (Seq digit digit)))))"

definition phoneRegex :: regex where
  \<comment> \<open>\<open>/\(\d{2}\)\s*\d{4,5}-?\d{4}|\d{2}\s*\d{4,5}-?\d{4}/\<close>\<close>
  "phoneRegex =
     Alt (Seq (lit ''('') (Seq digit (Seq digit (Seq (lit '')'') phoneTail))))
         (Seq digit (Seq digit phoneTail))"

section \<open>The platform\<close>

text \<open>
  The extractor calls two libraries whose code is not part of the repository: the URL
  parser of the runtime, and \<open>cheerio\<close>, which parses markup and evaluates a selector
  to the elements it matches, in document order. They are parameters of the model.
\<close>

record element =
  elemText :: jsstring                        \<comment> \<open>\<open>$(el).text()\<close>\<close>
  attribs :: "(jsstring \<times> jsstring) list"      \<comment> \<open>the attributes, read by \<open>$(el).attr(name)\<close>\<close>
  sourceSrc :: "jsstring option"              \<comment> \<open>\<open>$(el).find('source').attr('src')\<close>\<close>

definition attr :: "element \<Rightarrow> string \<Rightarrow> jsstring option" where
  "attr e name = map_of (attribs e) (js name)"

record platform =
  URL_hostname :: "jsstring \<Rightarrow> jsstring option"
    \<comment> \<open>\<open>new URL(u).hostname\<close>; \<open>None\<close> when the constructor throws\<close>
  URL_href :: "jsstring \<Rightarrow> jsstring \<Rightarrow> jsstring option"
    \<comment> \<open>\<open>new URL(s, base).href\<close>; \<open>None\<close> when the constructor throws\<close>
  cheerio_load :: "jsstring \<Rightarrow> jsstring \<Rightarrow> element list"
    \<comment> \<open>\<open>cheerio.load(html)(selector)\<close>\<close>

definition invalidURL :: jsstring where
  "invalidURL = js ''Invalid URL''"

definition orElse :: "jsstring option \<Rightarrow> jsstring \<Rightarrow> jsstring" where
  \<comment> \<open>\<open>a || b\<close> where \<open>a\<close> is a string or \<open>undefined\<close>: the empty string is falsy\<close>
  "orElse a b = (case a of None \<Rightarrow> b | Some s \<Rightarrow> if s = [] then b else s)"

section \<open>Strategy selection\<close>

definition jsHeavySites :: "jsstring list" where
  "jsHeavySites = map js [''facebook.com'', ''instagram.com'', ''linkedin.com'', ''twitter.com'',
     ''x.com'', ''tiktok.com'', ''youtube.com'', ''pinterest.com'', ''snapchat.com'']"

definition cloudflareSites :: "jsstring list" where
  "cloudflareSites = map js [''shopify.com'', ''wordpress.com'', ''wix.com'', ''squarespace.com'']"

definition botBlockingSites :: "jsstring list" where
  "botBlockingSites = map js [''amazon.com'', ''ebay.com'', ''mercadolivre.com'',
     ''aliexpress.com'', ''booking.com'', ''airbnb.com'']"

definition detectBestMethod :: "platform \<Rightarrow> jsstring \<Rightarrow> jsstring outcome" where
  "detectBestMethod P u =
     (case URL_hostname P u of
        None \<Rightarrow> Thrown invalidURL
      | Some h \<Rightarrow>
          (let domain = toLowerCase h in
           if list_ex (\<lambda>site. includesStr domain site) jsHeavySites then Returned (js ''playwright'')
           else if list_ex (\<lambda>site. includesStr domain site) cloudflareSites then Returned (js ''cloudscraper'')
           else if list_ex (\<lambda>site. includesStr domain site) botBlockingSites then Returned (js ''puppeteer'')
           else Returned (js ''axios'')))"

section \<open>The field extractor\<close>

record image =
  src :: jsstring
  alt :: jsstring

record contactInfo =
  email :: "jsstring option"
  phone :: "jsstring option"

record contentRecord =
  url :: jsstring
  title :: jsstring
  description :: jsstring
  price :: jsstring
  benefits :: "jsstring list"
  testimonials :: "jsstring list"
  cta :: jsstring
  images :: "image list"
  videos :: "jsstring list"
  contact :: contactInfo
  metadata :: "(string \<times> jsstring) list"
  extractionMethod :: "jsstring option"    \<comment> \<open>\<open>None\<close> while the property is not set\<close>

definition quote :: jsstring where
  \<comment> \<open>the double quote inside a selector\<close>
  "quote = [34]"

definition titleSelectors :: "jsstring list" where
  "titleSelectors =
    [js ''h1:not(:contains('' @ quote @ js ''404'' @ quote @ js '')):not(:contains('' @ quote @ js ''Error'' @ quote @ js '')):not(:contains('' @ quote @ js ''P'' @ [0xE1] @ js ''gina n'' @ [0xE3] @ js ''o encontrada'' @ quote @ js ''))'',
     js ''.main-title, .product-title, .headline, .title'',
     js ''[class*='' @ quote @ js ''title'' @ quote @ js '']:not(:contains('' @ quote @ js ''Error'' @ quote @ js ''))'',
     js ''meta[property='' @ quote @ js ''og:title'' @ quote @ js '']'',
     js ''meta[name='' @ quote @ js ''twitter:title'' @ quote @ js '']'',
     js ''title'']"

definition descSelectors :: "jsstring list" where
  "descSelectors =
    [js ''.product-description p:first-child'',
     js ''.description p:first-child'',
     js ''.summary, .lead, .intro'',
     js ''meta[name='' @ quote @ js ''description'' @ quote @ js '']'',
     js ''meta[property='' @ quote @ js ''og:description'' @ quote @ js '']'',
     js ''p:not(:contains('' @ quote @ js ''cookie'' @ quote @ js '')):not(:contains('' @ quote @ js ''pol'' @ [0xED] @ js ''tica'' @ quote @ js '')):not(:empty)'']"

definition priceSelectors :: "jsstring list" where
  "priceSelectors =
    [js ''.price, .valor, .preco, .cost, .amount'',
     js ''[class*='' @ quote @ js ''price'' @ quote @ js ''], [class*='' @ quote @ js ''valor'' @ quote @ js ''], [class*='' @ quote @ js ''preco'' @ quote @ js '']'']"

definition benefitSelectors :: "jsstring list" where
  "benefitSelectors =
    [js ''.benefits li, .vantagens li, .features li'',
     js ''ul li:contains('' @ quote @ [0x2713] @ quote @ js ''), ul li:contains('' @ quote @ [0x2705] @ quote @ js '')'',
     js ''li:contains('' @ quote @ js ''Transforme'' @ quote @ js ''), li:contains('' @ quote @ js ''Alcance'' @ quote @ js ''), li:contains('' @ quote @ js ''Aprenda'' @ quote @ js '')'']"

definition testimonialSelectors :: "jsstring list" where
  "testimonialSelectors =
    [js ''.testimonials, .depoimentos, .reviews'',
     js ''*:contains('' @ quote @ js ''recomendo'' @ quote @ js ''), *:contains('' @ quote @ js ''excelente'' @ quote @ js ''), *:contains('' @ quote @ js ''funcionou'' @ quote @ js '')'']"

definition ctaSelectors :: "jsstring list" where
  "ctaSelectors =
    [js ''a:contains('' @ quote @ js ''COMPRAR'' @ quote @ js ''), button:contains('' @ quote @ js ''COMPRAR'' @ quote @ js '')'',
     js ''a:contains('' @ quote @ js ''QUERO'' @ quote @ js ''), button:contains('' @ quote @ js ''QUERO'' @ quote @ js '')'',
     js ''.buy-button, .call-to-action, .btn-primary'']"

definition videoSelector :: jsstring where
  "videoSelector = js ''video, iframe[src*='' @ quote @ js ''youtube'' @ quote @ js ''], iframe[src*='' @ quote @ js ''vimeo'' @ quote @ js '']''"

definition metaProperty :: "string \<Rightarrow> jsstring" where
  "metaProperty p = js ''meta[property='' @ quote @ js p @ quote @ js '']''"

definition metaName :: "string \<Rightarrow> jsstring" where
  "metaName n = js ''meta[name='' @ quote @ js n @ quote @ js '']''"

text \<open>
  Each \<open>for\<close> loop over a list of selectors and each \<open>.each\<close> callback over the
  matched elements is a recursive function over that list; \<open>doc\<close> is \<open>$\<close>, the
  loaded document.
\<close>

fun titleLoop :: "(jsstring \<Rightarrow> element list) \<Rightarrow> jsstring list \<Rightarrow> jsstring" where
  "titleLoop doc [] = []"
| "titleLoop doc (selector # rest) =
     (case doc selector of
        [] \<Rightarrow> titleLoop doc rest
      | e # _ \<Rightarrow>
          (let t = orElse (attr e ''content'') (elemText e) in
           if t \<noteq> [] \<and> length (trim t) > 5 \<and> \<not> includesStr (toLowerCase t) (js ''error'')
           then trim t
           else titleLoop doc rest))"

fun descLoop :: "(jsstring \<Rightarrow> element list) \<Rightarrow> jsstring list \<Rightarrow> jsstring" where
  "descLoop doc [] = []"
| "descLoop doc (selector # rest) =
     (case doc selector of
        [] \<Rightarrow> descLoop doc rest
      | e # _ \<Rightarrow>
          (let d = orElse (attr e ''content'') (elemText e) in
           if d \<noteq> [] \<and> length (trim d) > 50
           then substring (trim d) 0 500
           else descLoop doc rest))"

definition priceMatch :: "element \<Rightarrow> jsstring option" where
  \<comment> \<open>\<open>$(element).text().trim().match(/.../)\<close>, element 0 of the result\<close>
  "priceMatch e = search priceRegex (trim (elemText e))"

fun priceEach :: "element list \<Rightarrow> jsstring \<Rightarrow> jsstring" where
  \<comment> \<open>the callback returns \<open>false\<close>, which ends \<open>.each\<close>, once it has stored a match\<close>
  "priceEach [] p = p"
| "priceEach (e # es) p =
     (case priceMatch e of
        Some m \<Rightarrow> if p = [] then m else priceEach es p
      | None \<Rightarrow> priceEach es p)"

fun priceLoop :: "(jsstring \<Rightarrow> element list) \<Rightarrow> jsstring list \<Rightarrow> jsstring \<Rightarrow> jsstring" where
  "priceLoop doc [] p = p"
| "priceLoop doc (selector # rest) p =
     (let p' = priceEach (doc selector) p in
      if p' \<noteq> [] then p' else priceLoop doc rest p')"

fun benefitsEach :: "element list \<Rightarrow> jsstring list \<Rightarrow> jsstring list" where
  "benefitsEach [] bs = bs"
| "benefitsEach (e # es) bs =
     (let t = trim (elemText e) in
      benefitsEach es
        (if t \<noteq> [] \<and> length t > 10 \<and> length t < 200 \<and> length bs < 8
         then (if t \<in> set bs then bs else bs @ [t])
         else bs))"

fun benefitsLoop :: "(jsstring \<Rightarrow> element list) \<Rightarrow> jsstring list \<Rightarrow> jsstring list \<Rightarrow> jsstring list" where
  "benefitsLoop doc [] bs = bs"
| "benefitsLoop doc (selector # rest) bs =
     (let bs' = benefitsEach (doc selector) bs in
      if length bs' \<ge> 8 then bs' else benefitsLoop doc rest bs')"

fun testimonialsEach :: "element list \<Rightarrow> jsstring list \<Rightarrow> jsstring list" where
  "testimonialsEach [] ts = ts"
| "testimonialsEach (e # es) ts =
     (let t = trim (elemText e) in
      testimonialsEach es
        (if t \<noteq> [] \<and> length t > 20 \<and> length t < 300 \<and> length ts < 5
         then (if t \<in> set ts then ts else ts @ [t])
         else ts))"

fun testimonialsLoop :: "(jsstring \<Rightarrow> element list) \<Rightarrow> jsstring list \<Rightarrow> jsstring list \<Rightarrow> jsstring list" where
  "testimonialsLoop doc [] ts = ts"
| "testimonialsLoop doc (selector # rest) ts =
     (let ts' = testimonialsEach (doc selector) ts in
      if length ts' \<ge> 5 then ts' else testimonialsLoop doc rest ts')"

fun ctaLoop :: "(jsstring \<Rightarrow> element list) \<Rightarrow> jsstring list \<Rightarrow> jsstring" where
  "ctaLoop doc [] = []"
| "ctaLoop doc (selector # rest) =
     (case doc selector of
        [] \<Rightarrow> ctaLoop doc rest
      | e # _ \<Rightarrow>
          (let c = trim (elemText e) in
           if c \<noteq> [] \<and> length c > 3 \<and> length c < 100 then c else ctaLoop doc rest))"

fun imagesEach :: "platform \<Rightarrow> jsstring \<Rightarrow> element list \<Rightarrow> image list \<Rightarrow> image list outcome" where
  \<comment> \<open>\<open>new URL(src, finalUrl)\<close> throws on a reference it cannot resolve, and the
      exception leaves \<open>processExtractedHTML\<close>\<close>
  "imagesEach P finalUrl [] acc = Returned acc"
| "imagesEach P finalUrl (img # imgs) acc =
     (let a = orElse (attr img ''alt'') [] in
      case attr img ''src'' of
        None \<Rightarrow> imagesEach P finalUrl imgs acc
      | Some s \<Rightarrow>
          if s \<noteq> [] \<and> \<not> includesStr s (js ''data:'') \<and> length acc < 10 then
            (if startsWith s (js ''http'')
             then imagesEach P finalUrl imgs (acc @ [\<lparr>src = s, alt = a\<rparr>])
             else (case URL_href P s finalUrl of
                     None \<Rightarrow> Thrown invalidURL
                   | Some h \<Rightarrow> imagesEach P finalUrl imgs (acc @ [\<lparr>src = h, alt = a\<rparr>])))
          else imagesEach P finalUrl imgs acc)"

fun videosEach :: "element list \<Rightarrow> jsstring list \<Rightarrow> jsstring list" where
  "videosEach [] acc = acc"
| "videosEach (video # rest) acc =
     (let s = (case attr video ''src'' of
                 None \<Rightarrow> sourceSrc video
               | Some a \<Rightarrow> if a = [] then sourceSrc video else Some a) in
      case s of
        None \<Rightarrow> videosEach rest acc
      | Some v \<Rightarrow> videosEach rest (if v \<noteq> [] \<and> length acc < 5 then acc @ [v] else acc))"

definition firstContent :: "(jsstring \<Rightarrow> element list) \<Rightarrow> jsstring \<Rightarrow> jsstring" where
  \<comment> \<open>\<open>$(selector).attr('content') || ''\<close>: the attribute of the first matched element\<close>
  "firstContent doc selector =
     (case doc selector of [] \<Rightarrow> [] | e # _ \<Rightarrow> orElse (attr e ''content'') [])"

definition processExtractedHTML :: "platform \<Rightarrow> jsstring \<Rightarrow> jsstring \<Rightarrow> contentRecord outcome" where
  "processExtractedHTML P html finalUrl =
     (let doc = cheerio_load P html in
      case imagesEach P finalUrl (doc (js ''img'')) [] of
        Thrown e \<Rightarrow> Thrown e
      | Returned imgs \<Rightarrow>
          Returned \<lparr>
            url = finalUrl,
            title = titleLoop doc titleSelectors,
            description = descLoop doc descSelectors,
            price = priceLoop doc priceSelectors [],
            benefits = benefitsLoop doc benefitSelectors [],
            testimonials = testimonialsLoop doc testimonialSelectors [],
            cta = ctaLoop doc ctaSelectors,
            images = imgs,
            videos = videosEach (doc videoSelector) [],
            contact = \<lparr>email = search emailRegex html, phone = search phoneRegex html\<rparr>,
            metadata =
              [(''ogTitle'', firstContent doc (metaProperty ''og:title'')),
               (''ogDescription'', firstContent doc (metaProperty ''og:description'')),
               (''ogImage'', firstContent doc (metaProperty ''og:image'')),
               (''keywords'', firstContent doc (metaName ''keywords'')),
               (''author'', firstContent doc (metaName ''author''))],
            extractionMethod = None
          \<rparr>)"

section \<open>The default record\<close>

definition getDefaultData :: "jsstring \<Rightarrow> contentRecord" where
  "getDefaultData u =
     \<lparr> url = u,
       title = js ''Produto Incr'' @ [0xED] @ js ''vel - Transforme Sua Vida Hoje!'',
       description = js ''Descubra este produto revolucion'' @ [0xE1] @ js ''rio que vai transformar completamente sua vida! Milhares de pessoas j'' @ [0xE1] @ js '' alcan'' @ [0xE7] @ js ''aram resultados extraordin'' @ [0xE1] @ js ''rios.'',
       price = js ''Oferta especial - Consulte o pre'' @ [0xE7] @ js ''o na p'' @ [0xE1] @ js ''gina'',
       benefits =
         [js ''Resultados comprovados em tempo recorde'',
          js ''Suporte especializado 24/7'',
          js ''Garantia total de satisfa'' @ [0xE7] @ [0xE3] @ js ''o'',
          js ''M'' @ [0xE9] @ js ''todo exclusivo e inovador'',
          js ''Transforma'' @ [0xE7] @ [0xE3] @ js ''o completa garantida''],
       testimonials =
         [js ''Produto excelente, mudou minha vida completamente!'',
          js ''Recomendo para todos, resultados incr'' @ [0xED] @ js ''veis!'',
          js ''Funcionou perfeitamente, superou minhas expectativas!''],
       cta = js ''QUERO TRANSFORMAR MINHA VIDA AGORA!'',
       images = [],
       videos = [],
       contact = \<lparr>email = None, phone = None\<rparr>,
       metadata = [],
       extractionMethod = Some (js ''fallback'') \<rparr>"

section \<open>The fetch strategies\<close>

datatype fetchResult =
    Success jsstring jsstring    \<comment> \<open>\<open>{ success: true, html, finalUrl }\<close>\<close>
  | Failure jsstring             \<comment> \<open>\<open>{ success: false, error }\<close>\<close>

fun success :: "fetchResult \<Rightarrow> bool" where
  "success (Success html finalUrl) = True"
| "success (Failure e) = False"

text \<open>
  The two HTTP clients are libraries: what a request answers is a parameter. The user
  agent drawn by \<open>getRandomUserAgent\<close> only fills a request header and is left out.
\<close>

definition extractWithAxios :: "(jsstring \<Rightarrow> (jsstring \<times> jsstring option) outcome) \<Rightarrow> jsstring \<Rightarrow> fetchResult" where
  \<comment> \<open>\<open>axios_get u\<close> is \<open>await axios.get(u, ...)\<close>: the body \<open>response.data\<close> with
      \<open>response.request.res?.responseUrl\<close>, or the rejection\<close>
  "extractWithAxios axios_get u =
     (case axios_get u of
        Returned (body, responseUrl) \<Rightarrow> Success body (orElse responseUrl u)
      | Thrown e \<Rightarrow> Failure e)"

definition extractWithCloudscraper :: "(jsstring \<Rightarrow> jsstring outcome) \<Rightarrow> jsstring \<Rightarrow> fetchResult" where
  "extractWithCloudscraper cloudscraper_get u =
     (case cloudscraper_get u of
        Returned response \<Rightarrow> Success response u
      | Thrown e \<Rightarrow> Failure e)"

text \<open>
  A browser strategy awaits a fixed sequence of calls on the browser driver. One run of
  the driver says which of the calls throw and what the page holds; the strategy returns
  its result together with the calls it made, in order.
\<close>

datatype driverCall =
    Launch | NewContext | NewPage | SetUserAgent | SetViewport | SetRequestInterception
  | OnRequest | Route | Goto | WaitForTimeout | Content | PageUrl | Close

record driver =
  throws :: "driverCall \<Rightarrow> jsstring option"    \<comment> \<open>the message of the error a call throws\<close>
  pageContent :: jsstring                       \<comment> \<open>\<open>page.content()\<close>\<close>
  pageUrl :: jsstring                           \<comment> \<open>\<open>page.url()\<close>\<close>

fun perform :: "driver \<Rightarrow> driverCall list \<Rightarrow> driverCall list \<Rightarrow> jsstring option \<times> driverCall list" where
  \<comment> \<open>the awaited calls one after the other, up to the first that throws\<close>
  "perform d [] made = (None, made)"
| "perform d (c # cs) made =
     (case throws d c of
        Some e \<Rightarrow> (Some e, made @ [c])
      | None \<Rightarrow> perform d cs (made @ [c]))"

definition withBrowser :: "driver \<Rightarrow> driverCall list \<Rightarrow> fetchResult outcome \<times> driverCall list" where
  \<comment> \<open>\<open>let browser = null; try { browser = await launch(); ...; return success }
      catch (error) { return failure } finally { if (browser) await browser.close() }\<close>:
      \<open>browser\<close> is set once \<open>launch\<close> has returned, and an exception of \<open>close\<close>
      replaces the value that was about to be returned\<close>
  "withBrowser d steps =
     (let (browser, result, made) =
        (case throws d Launch of
           Some e \<Rightarrow> (False, Failure e, [Launch])
         | None \<Rightarrow>
             (case perform d steps [Launch] of
                (Some e, made) \<Rightarrow> (True, Failure e, made)
              | (None, made) \<Rightarrow> (True, Success (pageContent d) (pageUrl d), made)))
      in if browser
         then (case throws d Close of
                 Some e \<Rightarrow> (Thrown e, made @ [Close])
               | None \<Rightarrow> (Returned result, made @ [Close]))
         else (Returned result, made))"

definition extractWithPuppeteer :: "driver \<Rightarrow> fetchResult outcome \<times> driverCall list" where
  "extractWithPuppeteer d =
     withBrowser d [NewPage, SetUserAgent, SetViewport, SetRequestInterception, OnRequest,
                    Goto, WaitForTimeout, Content, PageUrl]"

definition extractWithPlaywright :: "driver \<Rightarrow> fetchResult outcome \<times> driverCall list" where
  "extractWithPlaywright d =
     withBrowser d [NewContext, NewPage, Route, Goto, WaitForTimeout, Content, PageUrl]"

section \<open>The orchestrator and its cache\<close>

datatype strategy = Axios | Cloudscraper | Puppeteer | Playwright

record network =
  axios_get :: "jsstring \<Rightarrow> (jsstring \<times> jsstring option) outcome"
  cloudscraper_get :: "jsstring \<Rightarrow> jsstring outcome"
  puppeteer_run :: "jsstring \<Rightarrow> driver"
  playwright_run :: "jsstring \<Rightarrow> driver"

record cacheEntry =
  data :: contentRecord
  timestamp :: int

text \<open>
  The state is the module-level \<open>dataCache\<close>, together with the strategies executed so
  far, in order: the call count a test reads off its mocks. The outside world may answer
  each fetch differently, so \<open>env n\<close> is the network as the fetch after \<open>n\<close> earlier
  ones finds it. \<open>Date.now()\<close> is read once at the cache lookup and once at the cache
  write; the two readings are parameters.
\<close>

record world =
  dataCache :: "jsstring \<rightharpoonup> cacheEntry"
  executed :: "strategy list"

record clock =
  nowLookup :: int
  nowStore :: int

definition CACHE_TTL :: int where
  "CACHE_TTL = 3600000"

definition dispatch :: "jsstring \<Rightarrow> strategy" where
  \<comment> \<open>the \<open>switch\<close> on the method name, with axios as its \<open>default\<close>\<close>
  "dispatch m =
     (if m = js ''cloudscraper'' then Cloudscraper
      else if m = js ''puppeteer'' then Puppeteer
      else if m = js ''playwright'' then Playwright
      else Axios)"

definition strategyOutcome :: "network \<Rightarrow> strategy \<Rightarrow> jsstring \<Rightarrow> fetchResult outcome" where
  "strategyOutcome N s u =
     (case s of
        Axios \<Rightarrow> Returned (extractWithAxios (axios_get N) u)
      | Cloudscraper \<Rightarrow> Returned (extractWithCloudscraper (cloudscraper_get N) u)
      | Puppeteer \<Rightarrow> fst (extractWithPuppeteer (puppeteer_run N u))
      | Playwright \<Rightarrow> fst (extractWithPlaywright (playwright_run N u)))"

definition runStrategy :: "(nat \<Rightarrow> network) \<Rightarrow> strategy \<Rightarrow> jsstring \<Rightarrow> world \<Rightarrow> fetchResult outcome \<times> world" where
  "runStrategy env s u w =
     (strategyOutcome (env (length (executed w))) s u, w\<lparr>executed := executed w @ [s]\<rparr>)"

fun succeeded :: "fetchResult outcome \<Rightarrow> bool" where
  \<comment> \<open>the strategy returned markup\<close>
  "succeeded (Returned r) = success r"
| "succeeded (Thrown e) = False"

definition fallbackOrder :: "jsstring list" where
  "fallbackOrder = [js ''axios'', js ''cloudscraper'', js ''puppeteer'', js ''playwright'']"

fun fallbackLoop :: "(nat \<Rightarrow> network) \<Rightarrow> jsstring \<Rightarrow> jsstring list \<Rightarrow> jsstring \<times> fetchResult \<Rightarrow> world
    \<Rightarrow> (jsstring \<times> fetchResult) outcome \<times> world" where
  \<comment> \<open>the \<open>for\<close> loop over \<open>fallbackMethods\<close>, on the variables \<open>method\<close> and
      \<open>extractionResult\<close>\<close>
  "fallbackLoop env u [] (method, extractionResult) w = (Returned (method, extractionResult), w)"
| "fallbackLoop env u (fallbackMethod # rest) (method, extractionResult) w =
     (case runStrategy env (dispatch fallbackMethod) u w of
        (Thrown e, w') \<Rightarrow> (Thrown e, w')
      | (Returned r, w') \<Rightarrow>
          if success r then (Returned (fallbackMethod, r), w')
          else fallbackLoop env u rest (method, r) w')"

definition allFailed :: jsstring where
  "allFailed = js ''Todos os m'' @ [0xE9] @ js ''todos de extra'' @ [0xE7] @ [0xE3] @ js ''o falharam''"

definition cacheKey :: "jsstring \<Rightarrow> jsstring \<Rightarrow> jsstring" where
  "cacheKey u method = u @ js ''_'' @ method"

definition cacheLookup :: "world \<Rightarrow> jsstring \<Rightarrow> int \<Rightarrow> contentRecord option" where
  \<comment> \<open>\<open>cached && Date.now() - cached.timestamp < CACHE_TTL\<close>\<close>
  "cacheLookup w k now =
     (case dataCache w k of
        None \<Rightarrow> None
      | Some cached \<Rightarrow> if now - timestamp cached < CACHE_TTL then Some (data cached) else None)"

definition extractData_try :: "platform \<Rightarrow> (nat \<Rightarrow> network) \<Rightarrow> clock \<Rightarrow> world \<Rightarrow> jsstring \<Rightarrow> jsstring
    \<Rightarrow> contentRecord outcome \<times> world" where
  \<comment> \<open>the \<open>try\<close> block of \<open>extractData\<close>\<close>
  "extractData_try P env clk w u method =
     (case cacheLookup w (cacheKey u method) (nowLookup clk) of
        Some cached \<Rightarrow> (Returned cached, w)
      | None \<Rightarrow>
          (case (if method = js ''auto'' then detectBestMethod P u else Returned method) of
             Thrown e \<Rightarrow> (Thrown e, w)
           | Returned m \<Rightarrow>
               (case runStrategy env (dispatch m) u w of
                  (Thrown e, w1) \<Rightarrow> (Thrown e, w1)
                | (Returned r, w1) \<Rightarrow>
                    (case (if success r then (Returned (m, r), w1)
                           else fallbackLoop env u (filter (\<lambda>x. x \<noteq> m) fallbackOrder) (m, r) w1) of
                       (Thrown e, w2) \<Rightarrow> (Thrown e, w2)
                     | (Returned (m', Failure e), w2) \<Rightarrow> (Thrown allFailed, w2)
                     | (Returned (m', Success html finalUrl), w2) \<Rightarrow>
                         (case processExtractedHTML P html finalUrl of
                            Thrown e \<Rightarrow> (Thrown e, w2)
                          | Returned extracted \<Rightarrow>
                              (let processedData = extracted\<lparr>extractionMethod := Some m'\<rparr> in
                               (Returned processedData,
                                w2\<lparr>dataCache := (dataCache w2)(cacheKey u method \<mapsto>
                                      \<lparr>data = processedData, timestamp = nowStore clk\<rparr>)\<rparr>)))))))"

definition extractData :: "platform \<Rightarrow> (nat \<Rightarrow> network) \<Rightarrow> clock \<Rightarrow> world \<Rightarrow> jsstring \<Rightarrow> jsstring
    \<Rightarrow> contentRecord outcome \<times> world" where
  \<comment> \<open>\<open>try { ... } catch (error) { return this.getDefaultData(url) }\<close>\<close>
  "extractData P env clk w u method =
     (case extractData_try P env clk w u method of
        (Thrown e, w') \<Rightarrow> (Returned (getDefaultData u), w')
      | (Returned r, w') \<Rightarrow> (Returned r, w'))"

definition clearCache :: "world \<Rightarrow> world" where
  \<comment> \<open>\<open>dataCache.clear()\<close>\<close>
  "clearCache w = w\<lparr>dataCache := Map.empty\<rparr>"

section \<open>Example inputs\<close>

text \<open>
  A small sales page, the document \<open>cheerio\<close> loads from it, and the record the field
  extractor derives from it. The two list items of the page carry the same text.
\<close>

definition exampleUrl :: jsstring where
  "exampleUrl = js ''https://example.com/curso''"

definition exampleHtml :: jsstring where
  "exampleHtml = js ''<h1>Curso Completo de Vendas</h1><b class=price>Apenas R$ 199,90 hoje</b><ul class=benefits><li>Acesso por um ano</li><li>Acesso por um ano</li></ul><img src=/capa.png alt=Capa>''"

definition exampleDoc :: "jsstring \<Rightarrow> element list" where
  "exampleDoc selector =
     (if selector = titleSelectors ! 0
        then [\<lparr>elemText = js ''Curso Completo de Vendas'', attribs = [], sourceSrc = None\<rparr>]
      else if selector \<in> set priceSelectors
        then [\<lparr>elemText = js ''Apenas R$ 199,90 hoje'', attribs = [(js ''class'', js ''price'')], sourceSrc = None\<rparr>]
      else if selector = benefitSelectors ! 0
        then [\<lparr>elemText = js ''Acesso por um ano'', attribs = [], sourceSrc = None\<rparr>,
              \<lparr>elemText = js ''Acesso por um ano'', attribs = [], sourceSrc = None\<rparr>]
      else if selector = js ''img''
        then [\<lparr>elemText = [], attribs = [(js ''src'', js ''/capa.png''), (js ''alt'', js ''Capa'')], sourceSrc = None\<rparr>]
      else [])"

text \<open>A page with a crossed-out price before the current one.\<close>

definition twoPricesHtml :: jsstring where
  "twoPricesHtml = js ''<s class=price>De R$ 299,90</s><b class=price>Por R$ 199,90</b>''"

definition currentPrice :: element where
  "currentPrice = \<lparr>elemText = js ''Por R$ 199,90'', attribs = [(js ''class'', js ''price'')], sourceSrc = None\<rparr>"

definition twoPricesDoc :: "jsstring \<Rightarrow> element list" where
  "twoPricesDoc selector =
     (if selector \<in> set priceSelectors
        then [\<lparr>elemText = js ''De R$ 299,90'', attribs = [(js ''class'', js ''price'')], sourceSrc = None\<rparr>,
              currentPrice]
      else [])"

text \<open>A page whose only image has a source that \<open>new URL\<close> cannot resolve.\<close>

definition brokenImageHtml :: jsstring where
  "brokenImageHtml = js ''<img src=//[>''"

definition brokenImageDoc :: "jsstring \<Rightarrow> element list" where
  "brokenImageDoc selector =
     (if selector = js ''img''
        then [\<lparr>elemText = [], attribs = [(js ''src'', js ''//['')], sourceSrc = None\<rparr>]
      else [])"

text \<open>
  The platform of the examples. The parser lowercases the host of an \<open>https\<close> URL
  itself, and leaves the host of a URL with another scheme as it is written.
\<close>

definition upperCaseUrl :: jsstring where
  "upperCaseUrl = js ''app://WWW.FACEBOOK.COM/page''"

definition examplePlatform :: platform where
  "examplePlatform =
     \<lparr> URL_hostname = (\<lambda>u. if u = exampleUrl then Some (js ''example.com'')
                           else if u = js ''https://WWW.Amazon.com/dp/1'' then Some (js ''www.amazon.com'')
                           else if u = upperCaseUrl then Some (js ''WWW.FACEBOOK.COM'')
                           else None),
       URL_href = (\<lambda>s base. if s = js ''/capa.png'' \<and> base = exampleUrl
                              then Some (js ''https://example.com/capa.png'') else None),
       cheerio_load = (\<lambda>html. if html = exampleHtml then exampleDoc
                             else if html = twoPricesHtml then twoPricesDoc
                             else if html = brokenImageHtml then brokenImageDoc
                             else (\<lambda>selector. [])) \<rparr>"

definition exampleRecord :: contentRecord where
  "exampleRecord =
     \<lparr> url = exampleUrl,
       title = js ''Curso Completo de Vendas'',
       description = [],
       price = js ''R$ 199,90'',
       benefits = [js ''Acesso por um ano''],
       testimonials = [],
       cta = [],
       images = [\<lparr>src = js ''https://example.com/capa.png'', alt = js ''Capa''\<rparr>],
       videos = [],
       contact = \<lparr>email = None, phone = None\<rparr>,
       metadata = [(''ogTitle'', []), (''ogDescription'', []), (''ogImage'', []),
                   (''keywords'', []), (''author'', [])],
       extractionMethod = None \<rparr>"


text \<open>
  Drivers and networks: a browser whose navigation times out, one whose \<open>close\<close>
  throws as well, a network on which every strategy fails, one on which only the plain
  HTTP request is answered, one on which only the Cloudflare-tolerant request is, one
  on which the teardown of the lightweight browser throws, and one on which the
  Cloudflare-tolerant request is answered with the page of the unresolvable image.
\<close>

definition navigationTimeout :: driver where
  "navigationTimeout =
     \<lparr> throws = (\<lambda>c. if c = Goto then Some (js ''Navigation timeout of 30000 ms exceeded'') else None),
       pageContent = [],
       pageUrl = [] \<rparr>"

definition closeFails :: driver where
  "closeFails =
     \<lparr> throws = (\<lambda>c. if c = Goto then Some (js ''Navigation timeout of 30000 ms exceeded'')
                     else if c = Close then Some (js ''Protocol error: Target closed'')
                     else None),
       pageContent = [],
       pageUrl = [] \<rparr>"

definition deadNetwork :: network where
  "deadNetwork =
     \<lparr> axios_get = (\<lambda>u. Thrown (js ''connect ECONNREFUSED'')),
       cloudscraper_get = (\<lambda>u. Thrown (js ''connect ECONNREFUSED'')),
       puppeteer_run = (\<lambda>u. navigationTimeout),
       playwright_run = (\<lambda>u. navigationTimeout) \<rparr>"

definition plainNetwork :: network where
  "plainNetwork = deadNetwork\<lparr>axios_get := (\<lambda>u. Returned (exampleHtml, None))\<rparr>"

definition cloudflareNetwork :: network where
  "cloudflareNetwork = deadNetwork\<lparr>cloudscraper_get := (\<lambda>u. Returned exampleHtml)\<rparr>"

definition crashingNetwork :: network where
  "crashingNetwork = deadNetwork\<lparr>puppeteer_run := (\<lambda>u. closeFails)\<rparr>"

definition brokenImageNetwork :: network where
  "brokenImageNetwork = deadNetwork\<lparr>cloudscraper_get := (\<lambda>u. Returned brokenImageHtml)\<rparr>"

text \<open>
  Environments: the network stays dead; the network is dead at the first fetch and
  answers plain HTTP from the second on; only the Cloudflare-tolerant request is
  answered. And a string that \<open>new URL\<close> rejects.
\<close>

definition deadEnv :: "nat \<Rightarrow> network" where
  "deadEnv = (\<lambda>n. deadNetwork)"

definition recoveringEnv :: "nat \<Rightarrow> network" where
  "recoveringEnv = (\<lambda>n. if n = 0 then deadNetwork else plainNetwork)"

definition cloudflareEnv :: "nat \<Rightarrow> network" where
  "cloudflareEnv = (\<lambda>n. cloudflareNetwork)"

definition plainEnv :: "nat \<Rightarrow> network" where
  "plainEnv = (\<lambda>n. plainNetwork)"

definition crashingEnv :: "nat \<Rightarrow> network" where
  "crashingEnv = (\<lambda>n. crashingNetwork)"

definition brokenImageEnv :: "nat \<Rightarrow> network" where
  "brokenImageEnv = (\<lambda>n. brokenImageNetwork)"

definition notAUrl :: jsstring where
  "notAUrl = js ''not a url''"

definition emptyWorld :: world where
  "emptyWorld = \<lparr>dataCache = Map.empty, executed = []\<rparr>"

definition noon :: clock where
  "noon = \<lparr>nowLookup = 1700000000000, nowStore = 1700000002000\<rparr>"

definition halfPastNoon :: clock where
  "halfPastNoon = \<lparr>nowLookup = 1700001800000, nowStore = 1700001802000\<rparr>"

text \<open>The state an earlier, successful call with the method \<open>http\<close> leaves behind.\<close>

definition cachedHttpWorld :: world where
  "cachedHttpWorld =
     \<lparr> dataCache = [cacheKey exampleUrl (js ''http'') \<mapsto>
         \<lparr>data = exampleRecord\<lparr>extractionMethod := Some (js ''axios'')\<rparr>,
           timestamp = nowStore noon\<rparr>],
       executed = [Axios, Axios] \<rparr>"

section \<open>Evaluating the examples\<close>

lemmas regex_defs = lit_def codeUnit_def optional_def oneOrMore_def digit_def space_def
  dotOrComma_def letter_def inClass_def realAmount_def dollarAmount_def

lemma example_email: "search emailRegex exampleHtml = None"
  by (simp add: exampleHtml_def emailRegex_def regex_defs)

lemma example_phone: "search phoneRegex exampleHtml = None"
  by (simp add: exampleHtml_def phoneRegex_def phoneTail_def regex_defs)

lemma example_price: "search priceRegex (js ''Apenas R$ 199,90 hoje'') = Some (js ''R$ 199,90'')"
  by (simp add: priceRegex_def regex_defs)

lemmas selector_defs = titleSelectors_def descSelectors_def priceSelectors_def benefitSelectors_def
  testimonialSelectors_def ctaSelectors_def videoSelector_def metaProperty_def metaName_def quote_def

lemmas string_defs = trim_def isWhiteSpace_def toLowerCase_def lowerUnit_def includesStr_def
  startsWith_def substring_def orElse_def attr_def sublist_code(3)

lemma example_doc_simps:
  "titleLoop exampleDoc titleSelectors = js ''Curso Completo de Vendas''"
  "descLoop exampleDoc descSelectors = []"
  "benefitsLoop exampleDoc benefitSelectors [] = [js ''Acesso por um ano'']"
  "testimonialsLoop exampleDoc testimonialSelectors [] = []"
  "ctaLoop exampleDoc ctaSelectors = []"
  "videosEach (exampleDoc videoSelector) [] = []"
  by (simp_all add: exampleDoc_def selector_defs string_defs)

lemma example_price_loop: "priceLoop exampleDoc priceSelectors [] = js ''R$ 199,90''"
  using example_price by (simp add: exampleDoc_def selector_defs priceMatch_def trim_def isWhiteSpace_def)

lemma example_images:
  "imagesEach examplePlatform exampleUrl (exampleDoc (js ''img'')) [] =
     Returned [\<lparr>src = js ''https://example.com/capa.png'', alt = js ''Capa''\<rparr>]"
  by (simp add: exampleDoc_def examplePlatform_def exampleUrl_def selector_defs string_defs)

lemma example_meta:
  "firstContent exampleDoc (metaProperty p) = []" "firstContent exampleDoc (metaName p) = []"
  by (simp_all add: firstContent_def exampleDoc_def selector_defs)

lemma example_load: "cheerio_load examplePlatform exampleHtml = exampleDoc"
  by (simp add: examplePlatform_def)

lemma example_processed:
  "processExtractedHTML examplePlatform exampleHtml exampleUrl = Returned exampleRecord"
  unfolding processExtractedHTML_def example_load Let_def example_images
  by (simp add: example_doc_simps example_price_loop example_meta example_email example_phone
        exampleRecord_def)


section \<open>Strategy selection\<close>

text \<open>
  C7. When the hostname of the URL parses, \<open>detectBestMethod\<close> lowercases it, every
  letter from A to Z becoming the letter 32 code units above it, and tests the three
  site lists in a fixed order: a hostname that contains a JS-heavy site as a substring
  gives \<open>playwright\<close>; otherwise one that contains a Cloudflare site gives
  \<open>cloudscraper\<close>; otherwise one that contains a bot-blocking site gives \<open>puppeteer\<close>;
  otherwise the answer is \<open>axios\<close>.
\<close>

theorem detectBestMethod_priority:
  assumes "URL_hostname P u = Some h"
      and "domain = map (\<lambda>c. if 65 \<le> c \<and> c \<le> 90 then c + 32 else c) h"
  shows "detectBestMethod P u = Returned
     (if \<exists>site \<in> set jsHeavySites. \<exists>pre post. domain = pre @ site @ post
        then js ''playwright''
      else if \<exists>site \<in> set cloudflareSites. \<exists>pre post. domain = pre @ site @ post
        then js ''cloudscraper''
      else if \<exists>site \<in> set botBlockingSites. \<exists>pre post. domain = pre @ site @ post
        then js ''puppeteer''
      else js ''axios'')"
proof -
  have "toLowerCase h = domain"
    unfolding assms(2) toLowerCase_def by (rule map_cong) (simp_all add: lowerUnit_def)
  with assms(1) show ?thesis
    by (simp add: detectBestMethod_def includesStr_def sublist_def list_ex_iff Let_def)
qed

theorem detectBestMethod_priority_witness:
  "URL_hostname examplePlatform upperCaseUrl = Some (js ''WWW.FACEBOOK.COM'')
   \<and> map (\<lambda>c. if 65 \<le> c \<and> c \<le> 90 then c + 32 else c) (js ''WWW.FACEBOOK.COM'')
       = js ''www.facebook.com''
   \<and> detectBestMethod examplePlatform upperCaseUrl = Returned (js ''playwright'')"
proof -
  have h: "URL_hostname examplePlatform upperCaseUrl = Some (js ''WWW.FACEBOOK.COM'')"
    by (simp add: examplePlatform_def exampleUrl_def upperCaseUrl_def)
  have l: "js ''www.facebook.com''
       = map (\<lambda>c. if 65 \<le> c \<and> c \<le> 90 then c + 32 else c) (js ''WWW.FACEBOOK.COM'')"
    by simp
  show ?thesis
    using h l detectBestMethod_priority[OF h l]
    by (simp add: sublist_def[symmetric] jsHeavySites_def sublist_code(3))
qed

section \<open>Browser teardown\<close>

lemma perform_extends:
  "perform d steps made = (res, made') \<Longrightarrow> \<exists>ps. made' = made @ ps \<and> set ps \<subseteq> set steps"
proof (induction steps arbitrary: made)
  case Nil
  then show ?case by simp
next
  case (Cons c cs)
  show ?case
  proof (cases "throws d c")
    case None
    with Cons.prems have "perform d cs (made @ [c]) = (res, made')" by simp
    from Cons.IH[OF this] obtain ps where "made' = (made @ [c]) @ ps" "set ps \<subseteq> set cs" by blast
    then show ?thesis by (intro exI[of _ "c # ps"]) auto
  next
    case (Some e)
    with Cons.prems have "made' = made @ [c]" by simp
    then show ?thesis by (intro exI[of _ "[c]"]) auto
  qed
qed

lemma withBrowser_closes:
  assumes "throws d Launch = None" "Close \<notin> set steps"
  shows "\<exists>mid. snd (withBrowser d steps) = Launch # mid @ [Close] \<and> Close \<notin> set mid"
proof -
  obtain res made where p: "perform d steps [Launch] = (res, made)" by (cases "perform d steps [Launch]")
  from perform_extends[OF p] obtain ps where ps: "made = [Launch] @ ps" "set ps \<subseteq> set steps" by blast
  have "snd (withBrowser d steps) = made @ [Close]"
    using assms(1) p by (simp add: withBrowser_def split: option.splits)
  with ps assms(2) show ?thesis by auto
qed


text \<open>
  C6. Once \<open>launch\<close> has returned a browser, \<open>extractWithPuppeteer\<close> and
  \<open>extractWithPlaywright\<close> call \<open>browser.close()\<close> exactly once, as their last call,
  whichever call throws in between and whatever the strategy returns.
\<close>

theorem browser_closed_on_every_exit:
  assumes "throws d Launch = None"
  shows "(\<exists>mid. snd (extractWithPuppeteer d) = Launch # mid @ [Close] \<and> Close \<notin> set mid)
       \<and> (\<exists>mid. snd (extractWithPlaywright d) = Launch # mid @ [Close] \<and> Close \<notin> set mid)"
proof
  show "\<exists>mid. snd (extractWithPuppeteer d) = Launch # mid @ [Close] \<and> Close \<notin> set mid"
    unfolding extractWithPuppeteer_def by (rule withBrowser_closes[OF assms]) simp
  show "\<exists>mid. snd (extractWithPlaywright d) = Launch # mid @ [Close] \<and> Close \<notin> set mid"
    unfolding extractWithPlaywright_def by (rule withBrowser_closes[OF assms]) simp
qed

theorem browser_closed_on_every_exit_witness:
  "throws navigationTimeout Launch = None
   \<and> extractWithPuppeteer navigationTimeout =
       (Returned (Failure (js ''Navigation timeout of 30000 ms exceeded'')),
        [Launch, NewPage, SetUserAgent, SetViewport, SetRequestInterception, OnRequest, Goto, Close])
   \<and> extractWithPlaywright navigationTimeout =
       (Returned (Failure (js ''Navigation timeout of 30000 ms exceeded'')),
        [Launch, NewContext, NewPage, Route, Goto, Close])"
proof -
  have h: "throws navigationTimeout Launch = None" by (simp add: navigationTimeout_def)
  show ?thesis
    using h browser_closed_on_every_exit[OF h]
    by (simp add: extractWithPuppeteer_def extractWithPlaywright_def withBrowser_def
          navigationTimeout_def)
qed

section \<open>Bounds of the extracted record\<close>

lemma benefitsEach_inv:
  "length bs \<le> 8 \<Longrightarrow> distinct bs \<Longrightarrow>
   length (benefitsEach es bs) \<le> 8 \<and> distinct (benefitsEach es bs)"
  by (induction es arbitrary: bs) (auto simp: Let_def)

lemma benefitsLoop_inv:
  "length bs \<le> 8 \<Longrightarrow> distinct bs \<Longrightarrow>
   length (benefitsLoop doc sels bs) \<le> 8 \<and> distinct (benefitsLoop doc sels bs)"
proof (induction sels arbitrary: bs)
  case Nil
  then show ?case by simp
next
  case (Cons s sels)
  from benefitsEach_inv[OF Cons.prems, of "doc s"] Cons.IH[of "benefitsEach (doc s) bs"]
  show ?case by (simp add: Let_def)
qed

lemma testimonialsEach_inv:
  "length ts \<le> 5 \<Longrightarrow> distinct ts \<Longrightarrow>
   length (testimonialsEach es ts) \<le> 5 \<and> distinct (testimonialsEach es ts)"
  by (induction es arbitrary: ts) (auto simp: Let_def)

lemma testimonialsLoop_inv:
  "length ts \<le> 5 \<Longrightarrow> distinct ts \<Longrightarrow>
   length (testimonialsLoop doc sels ts) \<le> 5 \<and> distinct (testimonialsLoop doc sels ts)"
proof (induction sels arbitrary: ts)
  case Nil
  then show ?case by simp
next
  case (Cons s sels)
  from testimonialsEach_inv[OF Cons.prems, of "doc s"] Cons.IH[of "testimonialsEach (doc s) ts"]
  show ?case by (simp add: Let_def)
qed

lemma imagesEach_bound:
  "length acc \<le> 10 \<Longrightarrow> imagesEach P fu es acc = Returned imgs \<Longrightarrow> length imgs \<le> 10"
proof (induction es arbitrary: acc)
  case Nil
  then show ?case by simp
next
  case (Cons e es)
  show ?case
  proof (cases "attr e ''src''")
    case None
    with Cons show ?thesis by (simp add: Let_def)
  next
    case (Some s)
    show ?thesis
    proof (cases "s \<noteq> [] \<and> \<not> includesStr s (js ''data:'') \<and> length acc < 10")
      case False
      with Some Cons.prems(2) have "imagesEach P fu es acc = Returned imgs"
        by (auto simp: Let_def split: if_splits)
      from Cons.IH[OF Cons.prems(1) this] show ?thesis .
    next
      case True
      then have len: "\<And>x. length (acc @ [x]) \<le> 10" by simp
      from True Some Cons.prems(2) obtain x where "imagesEach P fu es (acc @ [x]) = Returned imgs"
        by (auto simp: Let_def split: if_splits option.splits)
      from Cons.IH[OF len this] show ?thesis .
    qed
  qed
qed

lemma videosEach_bound:
  "length acc \<le> 5 \<Longrightarrow> length (videosEach es acc) \<le> 5"
  by (induction es arbitrary: acc) (auto simp: Let_def split: option.splits)

lemma descLoop_bound: "length (descLoop doc sels) \<le> 500"
  by (induction sels) (auto simp: Let_def substring_def split: list.splits)


text \<open>
  C5. Every record that \<open>processExtractedHTML\<close> returns has at most 8 benefits, 5
  testimonials, 10 images and 5 videos, a description of at most 500 code units, and no
  string twice among its benefits or among its testimonials.
\<close>

theorem processExtractedHTML_bounds:
  assumes "processExtractedHTML P html finalUrl = Returned r"
  shows "length (benefits r) \<le> 8 \<and> length (testimonials r) \<le> 5 \<and> length (images r) \<le> 10
       \<and> length (videos r) \<le> 5 \<and> length (description r) \<le> 500
       \<and> distinct (benefits r) \<and> distinct (testimonials r)"
proof -
  let ?doc = "cheerio_load P html"
  from assms obtain imgs where
    i: "imagesEach P finalUrl (?doc (js ''img'')) [] = Returned imgs" and
    b: "benefits r = benefitsLoop ?doc benefitSelectors []" and
    t: "testimonials r = testimonialsLoop ?doc testimonialSelectors []" and
    v: "videos r = videosEach (?doc videoSelector) []" and
    d: "description r = descLoop ?doc descSelectors" and
    im: "images r = imgs"
    by (auto simp: processExtractedHTML_def Let_def split: outcome.splits)
  have "length imgs \<le> 10" by (rule imagesEach_bound[OF _ i]) simp
  moreover have "length (benefits r) \<le> 8 \<and> distinct (benefits r)"
    unfolding b by (rule benefitsLoop_inv) simp_all
  moreover have "length (testimonials r) \<le> 5 \<and> distinct (testimonials r)"
    unfolding t by (rule testimonialsLoop_inv) simp_all
  moreover have "length (videos r) \<le> 5" unfolding v by (rule videosEach_bound) simp
  moreover have "length (description r) \<le> 500" unfolding d by (rule descLoop_bound)
  ultimately show ?thesis using im by simp
qed


theorem processExtractedHTML_bounds_witness:
  "processExtractedHTML examplePlatform exampleHtml exampleUrl = Returned exampleRecord
   \<and> benefits exampleRecord = [js ''Acesso por um ano'']
   \<and> length (images exampleRecord) = 1"
  using example_processed processExtractedHTML_bounds[OF example_processed]
  by (simp add: exampleRecord_def)

section \<open>The price\<close>

lemma rmatch_le: "t \<in> set (rmatch r s) \<Longrightarrow> length t \<le> length s"
proof (induction r s arbitrary: t rule: rmatch.induct)
  case (1 rs s)
  then show ?case by (auto split: list.splits if_splits)
next
  case (2 s)
  then show ?case by simp
next
  case (3 a b s)
  from "3.prems" obtain m where m: "m \<in> set (rmatch a s)" "t \<in> set (rmatch b m)" by auto
  from "3.IH"(1)[OF m(1)] "3.IH"(2)[OF m(1) m(2)] show ?case by simp
next
  case (4 a b s)
  then show ?case by auto
next
  case (5 a s)
  have unfold: "rmatch (Star a) s =
      concat (map (\<lambda>m. if length m < length s then rmatch (Star a) m else []) (rmatch a s)) @ [s]"
    by (rule rmatch.simps(5))
  from "5.prems"[unfolded unfold] consider "t = s"
    | m where "m \<in> set (rmatch a s)" "length m < length s" "t \<in> set (rmatch (Star a) m)"
    by (auto simp del: rmatch.simps split: if_splits)
  then show ?case
  proof cases
    case 1
    then show ?thesis by simp
  next
    case 2
    from "5.IH"(2)[OF 2(1) 2(2) 2(3)] 2(2) show ?thesis by simp
  qed
qed

lemma rmatch_literal_first:
  "t \<in> set (rmatch (Seq (lit (c # cs)) r) s) \<Longrightarrow> length t < length s"
proof -
  assume "t \<in> set (rmatch (Seq (lit (c # cs)) r) s)"
  then obtain m where m: "m \<in> set (rmatch (lit (c # cs)) s)" "t \<in> set (rmatch r m)" by auto
  from m(1) obtain k where k: "k \<in> set (rmatch (codeUnit c) s)" "m \<in> set (rmatch (lit cs) k)"
    by (auto simp: lit_def)
  from k(1) have "length k < length s" by (auto simp: codeUnit_def split: list.splits if_splits)
  with rmatch_le[OF k(2)] rmatch_le[OF m(2)] show ?thesis by simp
qed

lemma priceRegex_consumes: "t \<in> set (rmatch priceRegex s) \<Longrightarrow> length t < length s"
  unfolding priceRegex_def rmatch.simps(4) set_append Un_iff
  by (blast dest: rmatch_literal_first)

lemma search_price_nonempty: "search priceRegex s = Some m \<Longrightarrow> m \<noteq> []"
proof (induction s)
  case Nil
  then show ?case using priceRegex_consumes[of _ "[]"] by (auto split: list.splits)
next
  case (Cons c s)
  show ?case
  proof (cases "rmatch priceRegex (c # s)")
    case Nil
    with Cons show ?thesis by simp
  next
    case (Cons t ts)
    then have "t \<in> set (rmatch priceRegex (c # s))" by simp
    from priceRegex_consumes[OF this] have "length (c # s) - length t > 0" by simp
    with Cons Cons.prems show ?thesis by auto
  qed
qed

lemma priceMatch_nonempty: "priceMatch e = Some m \<Longrightarrow> m \<noteq> []"
  unfolding priceMatch_def by (rule search_price_nonempty)

lemma priceEach_find:
  "priceEach es [] = (case List.find (\<lambda>e. priceMatch e \<noteq> None) es of
                        None \<Rightarrow> [] | Some e \<Rightarrow> the (priceMatch e))"
  by (induction es) (auto split: option.splits)

lemma find_append:
  "List.find Q (xs @ ys) = (case List.find Q xs of None \<Rightarrow> List.find Q ys | Some x \<Rightarrow> Some x)"
  by (induction xs) auto

lemma priceLoop_find:
  "priceLoop doc sels [] = (case List.find (\<lambda>e. priceMatch e \<noteq> None) (concat (map doc sels)) of
                              None \<Rightarrow> [] | Some e \<Rightarrow> the (priceMatch e))"
proof (induction sels)
  case Nil
  then show ?case by simp
next
  case (Cons s sels)
  show ?case
  proof (cases "List.find (\<lambda>e. priceMatch e \<noteq> None) (doc s)")
    case None
    with Cons show ?thesis by (simp add: priceEach_find find_append Let_def)
  next
    case (Some e)
    then have "priceMatch e \<noteq> None" by (auto simp: find_Some_iff)
    then obtain m where m: "priceMatch e = Some m" by blast
    with priceMatch_nonempty have "m \<noteq> []" by blast
    with Some m show ?thesis by (simp add: priceEach_find find_append Let_def)
  qed
qed

lemma two_prices_load: "cheerio_load examplePlatform twoPricesHtml = twoPricesDoc"
  by (simp add: examplePlatform_def twoPricesHtml_def exampleHtml_def)

lemma two_prices_first: "search priceRegex (js ''De R$ 299,90'') = Some (js ''R$ 299,90'')"
  by (simp add: priceRegex_def regex_defs)

lemma two_prices_loop: "priceLoop twoPricesDoc priceSelectors [] = js ''R$ 299,90''"
  using two_prices_first
  by (simp add: twoPricesDoc_def selector_defs priceMatch_def trim_def isWhiteSpace_def)

lemma two_prices_images: "imagesEach examplePlatform exampleUrl (twoPricesDoc (js ''img'')) [] = Returned []"
  by (simp add: twoPricesDoc_def selector_defs)

text \<open>
  C9, as stated, fails: on a page whose first price element reads \<open>De R$ 299,90\<close> and
  whose second reads \<open>Por R$ 199,90\<close>, an element matched by a price selector has a text
  that contains \<open>R$ 199,90\<close>, and the extracted price is \<open>R$ 299,90\<close>.
\<close>

theorem price_not_199_counterexample:
  "currentPrice \<in> set (cheerio_load examplePlatform twoPricesHtml (priceSelectors ! 0))
   \<and> includesStr (elemText currentPrice) (js ''R$ 199,90'')
   \<and> map_outcome price (processExtractedHTML examplePlatform twoPricesHtml exampleUrl)
       = Returned (js ''R$ 299,90'')"
proof -
  have "currentPrice \<in> set (twoPricesDoc (priceSelectors ! 0))"
    by (simp add: twoPricesDoc_def selector_defs)
  moreover have "includesStr (elemText currentPrice) (js ''R$ 199,90'')"
    by (simp add: currentPrice_def string_defs)
  moreover have "map_outcome price (processExtractedHTML examplePlatform twoPricesHtml exampleUrl)
       = Returned (js ''R$ 299,90'')"
    unfolding processExtractedHTML_def two_prices_load Let_def two_prices_images
    by (simp add: two_prices_loop)
  ultimately show ?thesis by (simp only: two_prices_load) 
qed

text \<open>
  C9, amended. The price is the leftmost match of the price pattern in the trimmed text
  of the first element, in selector order and then element order, whose text has a match,
  and it is empty when no element has one. On the example page that element reads
  \<open>Apenas R$ 199,90 hoje\<close> and the price is the matched substring \<open>R$ 199,90\<close>.
\<close>

theorem price_is_first_match:
  assumes "processExtractedHTML P html finalUrl = Returned r"
  shows "price r =
     (case List.find (\<lambda>e. priceMatch e \<noteq> None) (concat (map (cheerio_load P html) priceSelectors)) of
        None \<Rightarrow> []
      | Some e \<Rightarrow> the (priceMatch e))"
proof -
  from assms have "price r = priceLoop (cheerio_load P html) priceSelectors []"
    by (auto simp: processExtractedHTML_def Let_def split: outcome.splits)
  then show ?thesis by (simp only: priceLoop_find)
qed


theorem price_is_first_match_witness:
  "processExtractedHTML examplePlatform exampleHtml exampleUrl = Returned exampleRecord
   \<and> map elemText (cheerio_load examplePlatform exampleHtml (priceSelectors ! 0)) = [js ''Apenas R$ 199,90 hoje'']
   \<and> price exampleRecord = js ''R$ 199,90''"
  using example_processed price_is_first_match[OF example_processed]
  by (simp add: exampleRecord_def example_load exampleDoc_def selector_defs)

section \<open>The orchestrator\<close>

lemma runStrategy_world:
  "snd (runStrategy env s u w) = w\<lparr>executed := executed w @ [s]\<rparr>"
  by (simp add: runStrategy_def)

lemma fallbackLoop_world:
  "\<exists>xs. snd (fallbackLoop env u names (m, r) w) = w\<lparr>executed := executed w @ xs\<rparr>
        \<and> length xs \<le> length names"
proof (induction names arbitrary: r w)
  case Nil
  show ?case by (intro exI[of _ "[]"]) simp
next
  case (Cons n names)
  let ?w1 = "w\<lparr>executed := executed w @ [dispatch n]\<rparr>"
  show ?case
  proof (cases "strategyOutcome (env (length (executed w))) (dispatch n) u")
    case (Thrown e)
    then show ?thesis by (intro exI[of _ "[dispatch n]"]) (simp add: runStrategy_def)
  next
    case (Returned r1)
    show ?thesis
    proof (cases "success r1")
      case True
      with Returned show ?thesis by (intro exI[of _ "[dispatch n]"]) (simp add: runStrategy_def)
    next
      case False
      from Cons.IH[of r1 ?w1] obtain xs where
        xs: "snd (fallbackLoop env u names (m, r1) ?w1) = ?w1\<lparr>executed := executed ?w1 @ xs\<rparr>"
            "length xs \<le> length names" by blast
      with Returned False show ?thesis
        by (intro exI[of _ "dispatch n # xs"]) (simp add: runStrategy_def)
    qed
  qed
qed

lemma fallbackLoop_all_fail:
  assumes "\<forall>n s. \<not> succeeded (strategyOutcome (env n) s u)" "\<not> success r"
  shows "case fst (fallbackLoop env u names (m, r) w) of
           Thrown e \<Rightarrow> True
         | Returned (m', r') \<Rightarrow> \<not> success r'"
  using assms(2)
proof (induction names arbitrary: r w)
  case Nil
  then show ?case by simp
next
  case (Cons n names)
  show ?case
  proof (cases "strategyOutcome (env (length (executed w))) (dispatch n) u")
    case (Thrown e)
    then show ?thesis by (simp add: runStrategy_def)
  next
    case (Returned r1)
    with assms(1) have f: "\<not> success r1" by (metis succeeded.simps(1))
    from Cons.IH[OF f] Returned f show ?thesis by (simp add: runStrategy_def)
  qed
qed


lemma extractData_try_hit:
  "cacheLookup w (cacheKey u method) (nowLookup clk) = Some c \<Longrightarrow>
   extractData_try P env clk w u method = (Returned c, w)"
  by (simp add: extractData_try_def)

lemma extractData_try_runs:
  assumes miss: "cacheLookup w (cacheKey u method) (nowLookup clk) = None"
      and resolved: "(if method = js ''auto'' then detectBestMethod P u else Returned method) = Returned m"
  shows "\<exists>xs. executed (snd (extractData_try P env clk w u method)) = executed w @ dispatch m # xs
             \<and> length xs \<le> 4"
proof -
  let ?w1 = "w\<lparr>executed := executed w @ [dispatch m]\<rparr>"
  let ?names = "filter (\<lambda>x. x \<noteq> m) fallbackOrder"
  have ln: "length ?names \<le> 4" by (simp add: fallbackOrder_def)
  show ?thesis
  proof (cases "strategyOutcome (env (length (executed w))) (dispatch m) u")
    case (Thrown e)
    with miss resolved show ?thesis
      by (intro exI[of _ "[]"]) (simp add: extractData_try_def runStrategy_def)
  next
    case r: (Returned r1)
    show ?thesis
    proof (cases "success r1")
      case True
      with miss resolved r show ?thesis
        by (intro exI[of _ "[]"])
           (simp add: extractData_try_def runStrategy_def Let_def
                 split: fetchResult.splits outcome.splits)
    next
      case False
      from fallbackLoop_world[of env u ?names m r1 ?w1] obtain xs where
        xs: "snd (fallbackLoop env u ?names (m, r1) ?w1) = ?w1\<lparr>executed := executed ?w1 @ xs\<rparr>"
            "length xs \<le> length ?names" by blast
      obtain res w2 where fl: "fallbackLoop env u ?names (m, r1) ?w1 = (res, w2)"
        by (cases "fallbackLoop env u ?names (m, r1) ?w1")
      with xs have w2: "executed w2 = executed w @ dispatch m # xs" by simp
      from miss resolved r False fl have
        "executed (snd (extractData_try P env clk w u method)) = executed w2"
        by (simp add: extractData_try_def runStrategy_def Let_def
                 split: fetchResult.splits outcome.splits prod.splits)
      with w2 xs(2) ln show ?thesis by (intro exI[of _ xs]) simp
    qed
  qed
qed

lemma extractData_world:
  "snd (extractData P env clk w u method) = snd (extractData_try P env clk w u method)"
  by (simp add: extractData_def split: prod.splits outcome.splits)

lemma extractData_total:
  "\<exists>r. fst (extractData P env clk w u method) = Returned r"
  by (simp add: extractData_def split: prod.splits outcome.splits)

lemma extractData_try_all_fail:
  assumes miss: "cacheLookup w (cacheKey u method) (nowLookup clk) = None"
      and fail: "\<forall>n s. \<not> succeeded (strategyOutcome (env n) s u)"
  shows "\<exists>e w'. extractData_try P env clk w u method = (Thrown e, w') \<and> dataCache w' = dataCache w"
proof (cases "if method = js ''auto'' then detectBestMethod P u else Returned method")
  case (Thrown e)
  with miss show ?thesis by (simp add: extractData_try_def)
next
  case (Returned m)
  let ?w1 = "w\<lparr>executed := executed w @ [dispatch m]\<rparr>"
  let ?names = "filter (\<lambda>x. x \<noteq> m) fallbackOrder"
  show ?thesis
  proof (cases "strategyOutcome (env (length (executed w))) (dispatch m) u")
    case (Thrown e)
    with miss Returned show ?thesis by (simp add: extractData_try_def runStrategy_def)
  next
    case r: (Returned r1)
    with fail have f: "\<not> success r1" by (metis succeeded.simps(1))
    obtain res w2 where fl: "fallbackLoop env u ?names (m, r1) ?w1 = (res, w2)"
      by (cases "fallbackLoop env u ?names (m, r1) ?w1")
    from fallbackLoop_world[of env u ?names m r1 ?w1] fl
    have c: "dataCache w2 = dataCache w" by auto
    from fallbackLoop_all_fail[OF fail f, of ?names m ?w1] fl
    have "case res of Thrown e \<Rightarrow> True | Returned (m', r') \<Rightarrow> \<not> success r'" by simp
    then have "\<exists>e. extractData_try P env clk w u method = (Thrown e, w2)"
    proof (cases res)
      case (Thrown e)
      with miss Returned r f fl show ?thesis
        by (simp add: extractData_try_def runStrategy_def)
    next
      case rr: (Returned mr)
      obtain m' r' where mr: "mr = (m', r')" by (cases mr)
      assume "case res of Thrown e \<Rightarrow> True | Returned (m', r') \<Rightarrow> \<not> success r'"
      with rr mr obtain e' where "r' = Failure e'" by (cases r') auto
      with miss Returned r f fl rr mr show ?thesis
        by (simp add: extractData_try_def runStrategy_def)
    qed
    with c show ?thesis by blast
  qed
qed

lemma default_record_fields:
  "extractionMethod (getDefaultData u) = Some (js ''fallback'')"
  "url (getDefaultData u) = u"
  "length (benefits (getDefaultData u)) = 5"
  "length (testimonials (getDefaultData u)) = 3"
  "images (getDefaultData u) = []"
  "videos (getDefaultData u) = []"
  by (simp_all add: getDefaultData_def)

lemma dead_outcome:
  "strategyOutcome deadNetwork s u =
     Returned (Failure (if s = Axios \<or> s = Cloudscraper then js ''connect ECONNREFUSED''
                        else js ''Navigation timeout of 30000 ms exceeded''))"
  by (cases s)
     (simp_all add: strategyOutcome_def deadNetwork_def extractWithAxios_def
        extractWithCloudscraper_def extractWithPuppeteer_def extractWithPlaywright_def
        withBrowser_def navigationTimeout_def)

lemma dead_fails: "\<forall>n s. \<not> succeeded (strategyOutcome (deadEnv n) s u)"
  by (simp add: deadEnv_def dead_outcome)

lemma empty_miss: "cacheLookup emptyWorld k t = None"
  by (simp add: cacheLookup_def emptyWorld_def)

lemma example_auto: "detectBestMethod examplePlatform exampleUrl = Returned (js ''axios'')"
  by (simp add: detectBestMethod_def examplePlatform_def jsHeavySites_def cloudflareSites_def
        botBlockingSites_def string_defs)

lemma dead_run:
  "method = js ''auto'' \<or> method = js ''axios'' \<Longrightarrow>
   extractData examplePlatform deadEnv clk emptyWorld exampleUrl method =
     (Returned (getDefaultData exampleUrl),
      emptyWorld\<lparr>executed := [Axios, Cloudscraper, Puppeteer, Playwright]\<rparr>)"
  by (auto simp: extractData_def extractData_try_def cacheLookup_def example_auto runStrategy_def
        deadEnv_def dead_outcome dispatch_def fallbackOrder_def emptyWorld_def)

text \<open>
  C1, as stated, fails: with every strategy failing, the record returned for the example
  URL is the default record, and its \<open>images\<close> and \<open>videos\<close> lists are empty.
\<close>

theorem default_record_lists_counterexample:
  "extractData examplePlatform deadEnv noon emptyWorld exampleUrl (js ''auto'') =
     (Returned (getDefaultData exampleUrl),
      emptyWorld\<lparr>executed := [Axios, Cloudscraper, Puppeteer, Playwright]\<rparr>)
   \<and> images (getDefaultData exampleUrl) = []
   \<and> videos (getDefaultData exampleUrl) = []"
  by (simp add: dead_run default_record_fields)

text \<open>
  C1, amended. When a call of \<open>extractData\<close> finds no fresh cache entry and every
  strategy fails, it returns the default record of the requested URL: \<open>extractionMethod\<close>
  is \<open>fallback\<close>, \<open>url\<close> is the requested URL, \<open>benefits\<close> and \<open>testimonials\<close> are
  not empty, and \<open>images\<close> and \<open>videos\<close> are empty.
\<close>

theorem all_strategies_fail_default:
  assumes "cacheLookup w (cacheKey u method) (nowLookup clk) = None"
      and "\<forall>n s. \<not> succeeded (strategyOutcome (env n) s u)"
  shows "fst (extractData P env clk w u method) = Returned (getDefaultData u)
       \<and> extractionMethod (getDefaultData u) = Some (js ''fallback'')
       \<and> url (getDefaultData u) = u
       \<and> benefits (getDefaultData u) \<noteq> [] \<and> testimonials (getDefaultData u) \<noteq> []
       \<and> images (getDefaultData u) = [] \<and> videos (getDefaultData u) = []"
proof -
  from extractData_try_all_fail[OF assms, of P] obtain e w' where
    "extractData_try P env clk w u method = (Thrown e, w')" by blast
  then have "fst (extractData P env clk w u method) = Returned (getDefaultData u)"
    by (simp add: extractData_def)
  then show ?thesis by (simp add: getDefaultData_def)
qed

theorem all_strategies_fail_default_witness:
  "cacheLookup emptyWorld (cacheKey exampleUrl (js ''axios'')) (nowLookup noon) = None
   \<and> strategyOutcome (deadEnv 0) Axios exampleUrl = Returned (Failure (js ''connect ECONNREFUSED''))
   \<and> fst (extractData examplePlatform deadEnv noon emptyWorld exampleUrl (js ''axios''))
       = Returned (getDefaultData exampleUrl)"
proof -
  have m: "cacheLookup emptyWorld (cacheKey exampleUrl (js ''axios'')) (nowLookup noon) = None"
    by (rule empty_miss)
  have f: "\<forall>n s. \<not> succeeded (strategyOutcome (deadEnv n) s exampleUrl)"
    by (rule dead_fails)
  show ?thesis
    using m all_strategies_fail_default[OF m f, of examplePlatform]
    by (simp add: deadEnv_def dead_outcome)
qed

lemma not_a_url: "URL_hostname examplePlatform notAUrl = None"
  by (simp add: examplePlatform_def notAUrl_def exampleUrl_def upperCaseUrl_def)

text \<open>
  C4, as stated, fails: for a string that \<open>new URL\<close> rejects, \<open>extractData\<close> with method
  \<open>auto\<close> returns a content record, the default one, and propagates no error.
\<close>

theorem invalid_url_returns_record_counterexample:
  "URL_hostname examplePlatform notAUrl = None
   \<and> extractData examplePlatform deadEnv noon emptyWorld notAUrl (js ''auto'')
       = (Returned (getDefaultData notAUrl), emptyWorld)"
  by (simp add: not_a_url extractData_def extractData_try_def empty_miss detectBestMethod_def)

text \<open>
  C4, amended. \<open>extractData\<close> never fails outward, whatever its input: its \<open>catch\<close>
  turns every exception into the default record. For a URL that \<open>new URL\<close> rejects and
  method \<open>auto\<close>, a call that finds no fresh cache entry returns the default record of
  that URL and executes no strategy and writes no cache entry.
\<close>

theorem extractData_never_throws:
  "(\<exists>r. fst (extractData P env clk w u method) = Returned r)
   \<and> (URL_hostname P u = None \<and> method = js ''auto''
        \<and> cacheLookup w (cacheKey u method) (nowLookup clk) = None
      \<longrightarrow> extractData P env clk w u method = (Returned (getDefaultData u), w))"
proof
  show "\<exists>r. fst (extractData P env clk w u method) = Returned r"
    by (rule extractData_total)
  show "URL_hostname P u = None \<and> method = js ''auto''
        \<and> cacheLookup w (cacheKey u method) (nowLookup clk) = None
      \<longrightarrow> extractData P env clk w u method = (Returned (getDefaultData u), w)"
    by (auto simp: extractData_def extractData_try_def detectBestMethod_def)
qed

theorem extractData_never_throws_witness:
  "URL_hostname examplePlatform notAUrl = None
   \<and> cacheLookup emptyWorld (cacheKey notAUrl (js ''auto'')) (nowLookup noon) = None
   \<and> extractData examplePlatform cloudflareEnv noon emptyWorld notAUrl (js ''auto'')
       = (Returned (getDefaultData notAUrl), emptyWorld)"
  using extractData_never_throws[of examplePlatform cloudflareEnv noon emptyWorld notAUrl "js ''auto''"]
  by (simp add: not_a_url empty_miss)

lemma cacheLookup_later:
  assumes "cacheLookup w k t = None" "t \<le> t'" "dataCache w' = dataCache w"
  shows "cacheLookup w' k t' = None"
  using assms by (auto simp: cacheLookup_def split: option.splits if_splits)

lemma plain_outcome:
  "strategyOutcome plainNetwork Axios u = Returned (Success exampleHtml u)"
  by (simp add: strategyOutcome_def plainNetwork_def deadNetwork_def extractWithAxios_def orElse_def)

lemma recovering_run:
  "extractData examplePlatform recoveringEnv clk
      (emptyWorld\<lparr>executed := [Axios, Cloudscraper, Puppeteer, Playwright]\<rparr>) exampleUrl (js ''axios'')
   = (Returned (exampleRecord\<lparr>extractionMethod := Some (js ''axios'')\<rparr>),
      \<lparr>dataCache = [cacheKey exampleUrl (js ''axios'') \<mapsto>
          \<lparr>data = exampleRecord\<lparr>extractionMethod := Some (js ''axios'')\<rparr>, timestamp = nowStore clk\<rparr>],
        executed = [Axios, Cloudscraper, Puppeteer, Playwright, Axios]\<rparr>)"
  by (simp add: extractData_def extractData_try_def cacheLookup_def runStrategy_def
        recoveringEnv_def plain_outcome dispatch_def emptyWorld_def example_processed Let_def)

text \<open>
  C8. When a call that finds no fresh cache entry runs the strategies and every one of
  them fails, the default record is returned and the cache is left as it was; a later call
  for the same URL and method then runs a strategy again, whatever the network has
  become, instead of being answered from the cache.
\<close>

theorem fallback_record_not_cached:
  assumes miss: "cacheLookup w (cacheKey u method) (nowLookup clk) = None"
      and resolved: "(if method = js ''auto'' then detectBestMethod P u else Returned method) = Returned m"
      and fail: "\<forall>n s. \<not> succeeded (strategyOutcome (env n) s u)"
      and first: "extractData P env clk w u method = (r, w1)"
      and later: "nowLookup clk \<le> nowLookup clk'"
  shows "r = Returned (getDefaultData u)
       \<and> dataCache w1 = dataCache w
       \<and> (\<exists>rest. executed (snd (extractData P env' clk' w1 u method)) = executed w1 @ dispatch m # rest)"
proof -
  from extractData_try_all_fail[OF miss fail, of P] obtain e w' where
    t: "extractData_try P env clk w u method = (Thrown e, w')" and c: "dataCache w' = dataCache w"
    by blast
  with first have r: "r = Returned (getDefaultData u)" and w1: "w1 = w'"
    by (simp_all add: extractData_def)
  from cacheLookup_later[OF miss later] c w1
  have miss': "cacheLookup w1 (cacheKey u method) (nowLookup clk') = None" by simp
  from extractData_try_runs[OF miss' resolved, of env'] obtain xs where
    "executed (snd (extractData_try P env' clk' w1 u method)) = executed w1 @ dispatch m # xs"
    by blast
  then have "\<exists>rest. executed (snd (extractData P env' clk' w1 u method)) = executed w1 @ dispatch m # rest"
    by (simp add: extractData_world)
  with r c w1 show ?thesis by simp
qed

theorem fallback_record_not_cached_witness:
  "cacheLookup emptyWorld (cacheKey exampleUrl (js ''axios'')) (nowLookup noon) = None
   \<and> extractData examplePlatform deadEnv noon emptyWorld exampleUrl (js ''axios'')
       = (Returned (getDefaultData exampleUrl),
          emptyWorld\<lparr>executed := [Axios, Cloudscraper, Puppeteer, Playwright]\<rparr>)
   \<and> nowLookup noon \<le> nowLookup halfPastNoon
   \<and> executed (snd (extractData examplePlatform recoveringEnv halfPastNoon
        (emptyWorld\<lparr>executed := [Axios, Cloudscraper, Puppeteer, Playwright]\<rparr>) exampleUrl (js ''axios'')))
       = [Axios, Cloudscraper, Puppeteer, Playwright, Axios]"
proof -
  have m: "cacheLookup emptyWorld (cacheKey exampleUrl (js ''axios'')) (nowLookup noon) = None"
    by (rule empty_miss)
  have res: "(if js ''axios'' = js ''auto'' then detectBestMethod examplePlatform exampleUrl
              else Returned (js ''axios'')) = Returned (js ''axios'')" by simp
  have f: "\<forall>n s. \<not> succeeded (strategyOutcome (deadEnv n) s exampleUrl)" by (rule dead_fails)
  have run: "extractData examplePlatform deadEnv noon emptyWorld exampleUrl (js ''axios'')
       = (Returned (getDefaultData exampleUrl),
          emptyWorld\<lparr>executed := [Axios, Cloudscraper, Puppeteer, Playwright]\<rparr>)"
    by (rule dead_run) simp
  have l: "nowLookup noon \<le> nowLookup halfPastNoon" by (simp add: noon_def halfPastNoon_def)
  show ?thesis
    using m run l fallback_record_not_cached[OF m res f run l, of recoveringEnv]
      recovering_run[of halfPastNoon]
    by simp
qed

lemma axios_outcome:
  "strategyOutcome N Axios u = Returned (extractWithAxios (axios_get N) u)"
  by (simp add: strategyOutcome_def)

lemma fallbackLoop_Cons_fail:
  "strategyOutcome (env (length (executed w))) (dispatch n) u = Returned r1 \<Longrightarrow> \<not> success r1 \<Longrightarrow>
   fallbackLoop env u (n # ns) (m, r) w =
     fallbackLoop env u ns (m, r1) (w\<lparr>executed := executed w @ [dispatch n]\<rparr>)"
  by (simp add: runStrategy_def)

lemma fallbackLoop_Cons_success:
  "strategyOutcome (env (length (executed w))) (dispatch n) u = Returned r1 \<Longrightarrow> success r1 \<Longrightarrow>
   fallbackLoop env u (n # ns) (m, r) w =
     (Returned (n, r1), w\<lparr>executed := executed w @ [dispatch n]\<rparr>)"
  by (simp add: runStrategy_def)

lemma recovering_http_run:
  "method = js ''http'' \<Longrightarrow>
   extractData examplePlatform recoveringEnv clk emptyWorld exampleUrl method
   = (Returned (exampleRecord\<lparr>extractionMethod := Some (js ''axios'')\<rparr>),
      \<lparr>dataCache = [cacheKey exampleUrl method \<mapsto>
          \<lparr>data = exampleRecord\<lparr>extractionMethod := Some (js ''axios'')\<rparr>, timestamp = nowStore clk\<rparr>],
        executed = [Axios, Axios]\<rparr>)"
  by (simp add: extractData_def extractData_try_def cacheLookup_def runStrategy_def
        recoveringEnv_def plain_outcome dead_outcome dispatch_def emptyWorld_def example_processed
        fallbackOrder_def Let_def)

lemma cached_http_run:
  "method = js ''http'' \<Longrightarrow>
   extractData P env halfPastNoon cachedHttpWorld exampleUrl method =
     (Returned (exampleRecord\<lparr>extractionMethod := Some (js ''axios'')\<rparr>), cachedHttpWorld)"
  by (simp add: extractData_def extractData_try_def cacheLookup_def cachedHttpWorld_def
        noon_def halfPastNoon_def CACHE_TTL_def)

text \<open>
  C10, as stated, fails: a first call with the method \<open>http\<close> stores its record under
  the key of that URL and method, and a second call with the method \<open>http\<close> half an
  hour later is answered from the cache: it executes no strategy, axios or other.
\<close>

theorem cached_unknown_method_runs_nothing_counterexample:
  "extractData examplePlatform recoveringEnv noon emptyWorld exampleUrl (js ''http'') =
     (Returned (exampleRecord\<lparr>extractionMethod := Some (js ''axios'')\<rparr>), cachedHttpWorld)
   \<and> extractData examplePlatform deadEnv halfPastNoon cachedHttpWorld exampleUrl (js ''http'') =
     (Returned (exampleRecord\<lparr>extractionMethod := Some (js ''axios'')\<rparr>), cachedHttpWorld)
   \<and> executed cachedHttpWorld = [Axios, Axios]"
  using recovering_http_run[of "js ''http''" noon]
    cached_http_run[of "js ''http''" examplePlatform deadEnv]
  by (simp add: cachedHttpWorld_def)

text \<open>
  C10, amended. For a method other than \<open>auto\<close>, \<open>cloudscraper\<close>, \<open>puppeteer\<close> and
  \<open>playwright\<close>, a call that finds no fresh cache entry executes axios first; and when
  the method is not the string \<open>axios\<close> and that first attempt fails, the fallback chain,
  which filters out the method string only, executes axios a second time.
\<close>

theorem unknown_method_runs_axios_twice:
  assumes miss: "cacheLookup w (cacheKey u method) (nowLookup clk) = None"
      and unknown: "method \<notin> {js ''auto'', js ''cloudscraper'', js ''puppeteer'', js ''playwright''}"
  shows "(\<exists>rest. executed (snd (extractData P env clk w u method)) = executed w @ Axios # rest)
       \<and> (method \<noteq> js ''axios'' \<and> \<not> success (extractWithAxios (axios_get (env (length (executed w)))) u)
          \<longrightarrow> (\<exists>rest. executed (snd (extractData P env clk w u method)) = executed w @ Axios # Axios # rest))"
proof (intro conjI impI)
  from unknown have d: "dispatch method = Axios" by (simp add: dispatch_def)
  from unknown have resolved:
    "(if method = js ''auto'' then detectBestMethod P u else Returned method) = Returned method"
    by simp
  from extractData_try_runs[OF miss resolved, of env] d
  show first: "\<exists>rest. executed (snd (extractData P env clk w u method)) = executed w @ Axios # rest"
    by (auto simp: extractData_world)
  assume a: "method \<noteq> js ''axios'' \<and> \<not> success (extractWithAxios (axios_get (env (length (executed w)))) u)"
  let ?r = "extractWithAxios (axios_get (env (length (executed w)))) u"
  let ?w1 = "w\<lparr>executed := executed w @ [Axios]\<rparr>"
  let ?r2 = "extractWithAxios (axios_get (env (Suc (length (executed w))))) u"
  let ?rest = "[js ''cloudscraper'', js ''puppeteer'', js ''playwright'']"
  from unknown a have names: "filter (\<lambda>x. x \<noteq> method) fallbackOrder = js ''axios'' # ?rest"
    by (auto simp: fallbackOrder_def)
  let ?ax = "js ''axios''"
  have da: "dispatch ?ax = Axios" by (simp add: dispatch_def)
  obtain res w3 where loop: "fallbackLoop env u (?ax # ?rest) (method, ?r) ?w1 = (res, w3)"
    by (cases "fallbackLoop env u (?ax # ?rest) (method, ?r) ?w1")
  have o2: "strategyOutcome (env (length (executed ?w1))) (dispatch ?ax) u = Returned ?r2"
    unfolding da by (simp add: axios_outcome)
  have "\<exists>rest. executed w3 = executed w @ Axios # Axios # rest"
  proof (cases "success ?r2")
    case True
    from fallbackLoop_Cons_success[of env ?w1 ?ax u ?r2 ?rest "method" ?r, OF o2 True] loop
    have "w3 = ?w1\<lparr>executed := executed ?w1 @ [dispatch ?ax]\<rparr>" by simp
    then show ?thesis unfolding da by simp
  next
    case False
    let ?w2 = "?w1\<lparr>executed := executed ?w1 @ [dispatch ?ax]\<rparr>"
    from fallbackLoop_Cons_fail[of env ?w1 ?ax u ?r2 ?rest "method" ?r, OF o2 False] loop
    have l2: "fallbackLoop env u ?rest (method, ?r2) ?w2 = (res, w3)" by simp
    from fallbackLoop_world[of env u ?rest "method" ?r2 ?w2] obtain xs where
      "snd (fallbackLoop env u ?rest (method, ?r2) ?w2) = ?w2\<lparr>executed := executed ?w2 @ xs\<rparr>"
      by blast
    with l2 have "w3 = ?w2\<lparr>executed := executed ?w2 @ xs\<rparr>" by simp
    then show ?thesis unfolding da by simp
  qed
  moreover from miss resolved a names loop d
  have "executed (snd (extractData_try P env clk w u method)) = executed w3"
    by (simp add: extractData_try_def runStrategy_def axios_outcome Let_def
          split: outcome.splits fetchResult.splits prod.splits del: fallbackLoop.simps)
  ultimately show "\<exists>rest. executed (snd (extractData P env clk w u method)) = executed w @ Axios # Axios # rest"
    by (simp add: extractData_world)
qed

theorem unknown_method_runs_axios_twice_witness:
  "cacheLookup emptyWorld (cacheKey exampleUrl (js ''http'')) (nowLookup noon) = None
   \<and> js ''http'' \<notin> {js ''auto'', js ''cloudscraper'', js ''puppeteer'', js ''playwright''}
   \<and> js ''http'' \<noteq> js ''axios''
   \<and> \<not> success (extractWithAxios (axios_get (recoveringEnv (length (executed emptyWorld)))) exampleUrl)
   \<and> executed (snd (extractData examplePlatform recoveringEnv noon emptyWorld exampleUrl (js ''http'')))
       = [Axios, Axios]"
proof -
  have m: "cacheLookup emptyWorld (cacheKey exampleUrl (js ''http'')) (nowLookup noon) = None"
    by (rule empty_miss)
  have u: "js ''http'' \<notin> {js ''auto'', js ''cloudscraper'', js ''puppeteer'', js ''playwright''}"
    by simp
  have f: "\<not> success (extractWithAxios (axios_get (recoveringEnv (length (executed emptyWorld)))) exampleUrl)"
    by (simp add: recoveringEnv_def emptyWorld_def deadNetwork_def extractWithAxios_def)
  show ?thesis
    using m u f unknown_method_runs_axios_twice[OF m u, of examplePlatform recoveringEnv]
      recovering_http_run[of "js ''http''" noon]
    by simp
qed

section \<open>The cache\<close>

lemma dead_second_run:
  "method = js ''axios'' \<Longrightarrow>
   extractData examplePlatform deadEnv clk
     (emptyWorld\<lparr>executed := [Axios, Cloudscraper, Puppeteer, Playwright]\<rparr>) exampleUrl method =
     (Returned (getDefaultData exampleUrl),
      emptyWorld\<lparr>executed := [Axios, Cloudscraper, Puppeteer, Playwright,
                                 Axios, Cloudscraper, Puppeteer, Playwright]\<rparr>)"
  by (simp add: extractData_def extractData_try_def cacheLookup_def runStrategy_def
        deadEnv_def dead_outcome dispatch_def fallbackOrder_def emptyWorld_def)

text \<open>
  C2, as stated, fails: on a network where every strategy fails, the first call caches
  nothing, and a second call half an hour later, inside the TTL of one hour, runs the
  four strategies again. The two calls issue eight fetches.
\<close>

theorem two_calls_eight_fetches_counterexample:
  "nowLookup halfPastNoon - nowStore noon < CACHE_TTL
   \<and> extractData examplePlatform deadEnv noon emptyWorld exampleUrl (js ''axios'') =
       (Returned (getDefaultData exampleUrl),
        emptyWorld\<lparr>executed := [Axios, Cloudscraper, Puppeteer, Playwright]\<rparr>)
   \<and> extractData examplePlatform deadEnv halfPastNoon
         (emptyWorld\<lparr>executed := [Axios, Cloudscraper, Puppeteer, Playwright]\<rparr>)
         exampleUrl (js ''axios'') =
       (Returned (getDefaultData exampleUrl),
        emptyWorld\<lparr>executed := [Axios, Cloudscraper, Puppeteer, Playwright,
                                   Axios, Cloudscraper, Puppeteer, Playwright]\<rparr>)"
  using dead_run[of "js ''axios''" noon] dead_second_run[of "js ''axios''" halfPastNoon]
  by (simp add: noon_def halfPastNoon_def CACHE_TTL_def)

lemma extractData_try_stored:
  assumes miss: "cacheLookup w (cacheKey u method) (nowLookup clk) = None"
      and ret: "extractData_try P env clk w u method = (Returned r, w1)"
  shows "dataCache w1 (cacheKey u method) = Some \<lparr>data = r, timestamp = nowStore clk\<rparr>
       \<and> (\<exists>m. (if method = js ''auto'' then detectBestMethod P u else Returned method) = Returned m)"
  using ret unfolding extractData_try_def miss
  by (auto simp: Let_def split: outcome.splits prod.splits fetchResult.splits if_splits)

lemma cloudflare_outcome:
  "strategyOutcome cloudflareNetwork s u =
     (if s = Cloudscraper then Returned (Success exampleHtml u)
      else Returned (Failure (if s = Axios then js ''connect ECONNREFUSED''
                              else js ''Navigation timeout of 30000 ms exceeded'')))"
  by (cases s)
     (simp_all add: strategyOutcome_def cloudflareNetwork_def deadNetwork_def extractWithAxios_def
        extractWithCloudscraper_def extractWithPuppeteer_def extractWithPlaywright_def
        withBrowser_def navigationTimeout_def)

lemma cloudflare_try:
  "method = js ''auto'' \<or> method = js ''axios'' \<Longrightarrow>
   extractData_try examplePlatform cloudflareEnv clk emptyWorld exampleUrl method
   = (Returned (exampleRecord\<lparr>extractionMethod := Some (js ''cloudscraper'')\<rparr>),
      \<lparr>dataCache = [cacheKey exampleUrl method \<mapsto>
          \<lparr>data = exampleRecord\<lparr>extractionMethod := Some (js ''cloudscraper'')\<rparr>,
            timestamp = nowStore clk\<rparr>],
        executed = [Axios, Cloudscraper]\<rparr>)"
  by (auto simp: extractData_try_def cacheLookup_def runStrategy_def example_auto
        cloudflareEnv_def cloudflare_outcome dispatch_def emptyWorld_def example_processed
        fallbackOrder_def Let_def)

lemma plain_try:
  "method = js ''axios'' \<Longrightarrow>
   extractData_try examplePlatform plainEnv clk emptyWorld exampleUrl method
   = (Returned (exampleRecord\<lparr>extractionMethod := Some (js ''axios'')\<rparr>),
      \<lparr>dataCache = [cacheKey exampleUrl method \<mapsto>
          \<lparr>data = exampleRecord\<lparr>extractionMethod := Some (js ''axios'')\<rparr>,
            timestamp = nowStore clk\<rparr>],
        executed = [Axios]\<rparr>)"
  by (simp add: extractData_try_def cacheLookup_def runStrategy_def plainEnv_def plain_outcome
        dispatch_def emptyWorld_def example_processed Let_def)

lemma extractData_try_first_success:
  assumes miss: "cacheLookup w (cacheKey u method) (nowLookup clk) = None"
      and resolved: "(if method = js ''auto'' then detectBestMethod P u else Returned method) = Returned m"
      and ok: "succeeded (strategyOutcome (env (length (executed w))) (dispatch m) u)"
  shows "executed (snd (extractData_try P env clk w u method)) = executed w @ [dispatch m]"
proof -
  from ok obtain r1 where
    o: "strategyOutcome (env (length (executed w))) (dispatch m) u = Returned r1" and s: "success r1"
    by (cases "strategyOutcome (env (length (executed w))) (dispatch m) u") auto
  with miss resolved show ?thesis
    by (simp add: extractData_try_def runStrategy_def Let_def
          split: outcome.splits fetchResult.splits)
qed

text \<open>
  C2, amended. When the first call finds no fresh cache entry and its \<open>try\<close> block
  returns a record (a strategy delivered markup and the field extractor returned), a
  second call for the same URL and method whose lookup comes less than \<open>CACHE_TTL\<close>
  after the write returns that record, executes no strategy and leaves the state as it
  is, whatever the network has become. All the fetches of the two calls are those of
  the first call: at least one and at most five, and exactly one when its first
  strategy succeeds.
\<close>

theorem second_call_served_from_cache:
  assumes miss: "cacheLookup w (cacheKey u method) (nowLookup clk) = None"
      and stored: "extractData_try P env clk w u method = (Returned r, w1)"
      and within: "nowLookup clk' - nowStore clk < CACHE_TTL"
  shows "extractData P env clk w u method = (Returned r, w1)
       \<and> extractData P env' clk' w1 u method = (Returned r, w1)
       \<and> (\<exists>xs. executed w1 = executed w @ xs \<and> 1 \<le> length xs \<and> length xs \<le> 5)
       \<and> (\<forall>m. (if method = js ''auto'' then detectBestMethod P u else Returned method) = Returned m
                \<and> succeeded (strategyOutcome (env (length (executed w))) (dispatch m) u)
              \<longrightarrow> executed w1 = executed w @ [dispatch m]
                \<and> executed (snd (extractData P env' clk' w1 u method)) = executed w @ [dispatch m])"
proof -
  from extractData_try_stored[OF miss stored] obtain m where
    entry: "dataCache w1 (cacheKey u method) = Some \<lparr>data = r, timestamp = nowStore clk\<rparr>" and
    resolved: "(if method = js ''auto'' then detectBestMethod P u else Returned method) = Returned m"
    by blast
  from entry within have "cacheLookup w1 (cacheKey u method) (nowLookup clk') = Some r"
    by (simp add: cacheLookup_def)
  from extractData_try_hit[OF this]
  have second: "extractData P env' clk' w1 u method = (Returned r, w1)"
    by (simp add: extractData_def)
  from stored have first: "extractData P env clk w u method = (Returned r, w1)"
    by (simp add: extractData_def)
  from extractData_try_runs[OF miss resolved, of env] stored
  obtain ys where "executed w1 = executed w @ dispatch m # ys" "length ys \<le> 4" by auto
  then have count: "\<exists>xs. executed w1 = executed w @ xs \<and> 1 \<le> length xs \<and> length xs \<le> 5"
    by (intro exI[of _ "dispatch m # ys"]) simp
  have one: "\<forall>m. (if method = js ''auto'' then detectBestMethod P u else Returned method) = Returned m
                \<and> succeeded (strategyOutcome (env (length (executed w))) (dispatch m) u)
              \<longrightarrow> executed w1 = executed w @ [dispatch m]
                \<and> executed (snd (extractData P env' clk' w1 u method)) = executed w @ [dispatch m]"
  proof (intro allI impI)
    fix m'
    assume a: "(if method = js ''auto'' then detectBestMethod P u else Returned method) = Returned m'
                \<and> succeeded (strategyOutcome (env (length (executed w))) (dispatch m') u)"
    from extractData_try_first_success[OF miss, of P m' env] a stored
    have "executed w1 = executed w @ [dispatch m']" by simp
    with second show "executed w1 = executed w @ [dispatch m']
        \<and> executed (snd (extractData P env' clk' w1 u method)) = executed w @ [dispatch m']"
      by simp
  qed
  from first second count one show ?thesis by blast
qed

theorem second_call_served_from_cache_witness:
  "cacheLookup emptyWorld (cacheKey exampleUrl (js ''axios'')) (nowLookup noon) = None
   \<and> nowLookup halfPastNoon - nowStore noon < CACHE_TTL
   \<and> succeeded (strategyOutcome (plainEnv (length (executed emptyWorld))) (dispatch (js ''axios'')) exampleUrl)
   \<and> fst (extractData examplePlatform plainEnv noon emptyWorld exampleUrl (js ''axios''))
       = Returned (exampleRecord\<lparr>extractionMethod := Some (js ''axios'')\<rparr>)
   \<and> executed (snd (extractData examplePlatform plainEnv noon emptyWorld exampleUrl (js ''axios'')))
       = [Axios]
   \<and> fst (extractData examplePlatform deadEnv halfPastNoon
         (snd (extractData examplePlatform plainEnv noon emptyWorld exampleUrl (js ''axios'')))
         exampleUrl (js ''axios''))
       = Returned (exampleRecord\<lparr>extractionMethod := Some (js ''axios'')\<rparr>)
   \<and> executed (snd (extractData examplePlatform deadEnv halfPastNoon
         (snd (extractData examplePlatform plainEnv noon emptyWorld exampleUrl (js ''axios'')))
         exampleUrl (js ''axios'')))
       = [Axios]"
proof -
  let ?r = "exampleRecord\<lparr>extractionMethod := Some (js ''axios'')\<rparr>"
  let ?w1 = "\<lparr>dataCache = [cacheKey exampleUrl (js ''axios'') \<mapsto>
                \<lparr>data = ?r, timestamp = nowStore noon\<rparr>],
              executed = [Axios]\<rparr>"
  have m: "cacheLookup emptyWorld (cacheKey exampleUrl (js ''axios'')) (nowLookup noon) = None"
    by (rule empty_miss)
  have t: "extractData_try examplePlatform plainEnv noon emptyWorld exampleUrl (js ''axios'')
             = (Returned ?r, ?w1)"
    by (rule plain_try) simp
  have w: "nowLookup halfPastNoon - nowStore noon < CACHE_TTL"
    by (simp add: noon_def halfPastNoon_def CACHE_TTL_def)
  have s: "succeeded (strategyOutcome (plainEnv (length (executed emptyWorld))) (dispatch (js ''axios'')) exampleUrl)"
    by (simp add: plainEnv_def plain_outcome dispatch_def)
  have e: "executed emptyWorld = []" by (simp add: emptyWorld_def)
  from second_call_served_from_cache[OF m t w, of deadEnv]
  have first: "extractData examplePlatform plainEnv noon emptyWorld exampleUrl (js ''axios'') = (Returned ?r, ?w1)"
   and second: "extractData examplePlatform deadEnv halfPastNoon ?w1 exampleUrl (js ''axios'') = (Returned ?r, ?w1)"
    by blast+
  from m w s first second show ?thesis by simp
qed

section \<open>The fallback chain\<close>

lemma crashing_outcome:
  "strategyOutcome crashingNetwork s u =
     (if s = Puppeteer then Thrown (js ''Protocol error: Target closed'')
      else Returned (Failure (if s = Playwright then js ''Navigation timeout of 30000 ms exceeded''
                              else js ''connect ECONNREFUSED'')))"
  by (cases s)
     (simp_all add: strategyOutcome_def crashingNetwork_def deadNetwork_def extractWithAxios_def
        extractWithCloudscraper_def extractWithPuppeteer_def extractWithPlaywright_def
        withBrowser_def navigationTimeout_def closeFails_def)

lemma crashing_run:
  "method = js ''axios'' \<Longrightarrow>
   extractData examplePlatform crashingEnv clk emptyWorld exampleUrl method =
     (Returned (getDefaultData exampleUrl),
      emptyWorld\<lparr>executed := [Axios, Cloudscraper, Puppeteer]\<rparr>)"
  by (simp add: extractData_def extractData_try_def cacheLookup_def runStrategy_def
        crashingEnv_def crashing_outcome dispatch_def fallbackOrder_def emptyWorld_def)

lemma broken_image_outcome:
  "strategyOutcome brokenImageNetwork s u =
     (if s = Cloudscraper then Returned (Success brokenImageHtml u)
      else Returned (Failure (if s = Axios then js ''connect ECONNREFUSED''
                              else js ''Navigation timeout of 30000 ms exceeded'')))"
  by (cases s)
     (simp_all add: strategyOutcome_def brokenImageNetwork_def deadNetwork_def extractWithAxios_def
        extractWithCloudscraper_def extractWithPuppeteer_def extractWithPlaywright_def
        withBrowser_def navigationTimeout_def)

lemma broken_image_processed:
  "processExtractedHTML examplePlatform brokenImageHtml exampleUrl = Thrown invalidURL"
  by (simp add: processExtractedHTML_def examplePlatform_def brokenImageHtml_def exampleHtml_def
        twoPricesHtml_def brokenImageDoc_def string_defs)

lemma broken_image_run:
  "method = js ''axios'' \<Longrightarrow>
   extractData examplePlatform brokenImageEnv clk emptyWorld exampleUrl method =
     (Returned (getDefaultData exampleUrl), emptyWorld\<lparr>executed := [Axios, Cloudscraper]\<rparr>)"
  by (simp add: extractData_def extractData_try_def cacheLookup_def runStrategy_def
        brokenImageEnv_def broken_image_outcome dispatch_def fallbackOrder_def emptyWorld_def
        broken_image_processed)

text \<open>
  C3, as stated, fails, twice. When the first strategy, axios, has failed and the
  teardown of the lightweight browser throws, the exception leaves the fallback chain
  for the \<open>catch\<close> of \<open>extractData\<close>: the chain ends without a success and the full
  browser is never attempted. And when the Cloudflare-tolerant request delivers markup
  on which the field extractor throws, the record returned is the default one: its
  \<open>extractionMethod\<close> is \<open>fallback\<close>, not the strategy that produced the markup.
\<close>

theorem chain_cut_short_counterexample:
  "strategyOutcome (crashingEnv 2) Puppeteer exampleUrl = Thrown (js ''Protocol error: Target closed'')
   \<and> extractData examplePlatform crashingEnv noon emptyWorld exampleUrl (js ''axios'') =
       (Returned (getDefaultData exampleUrl),
        emptyWorld\<lparr>executed := [Axios, Cloudscraper, Puppeteer]\<rparr>)
   \<and> strategyOutcome (brokenImageEnv 1) Cloudscraper exampleUrl
       = Returned (Success brokenImageHtml exampleUrl)
   \<and> extractData examplePlatform brokenImageEnv noon emptyWorld exampleUrl (js ''axios'') =
       (Returned (getDefaultData exampleUrl), emptyWorld\<lparr>executed := [Axios, Cloudscraper]\<rparr>)
   \<and> extractionMethod (getDefaultData exampleUrl) = Some (js ''fallback'')"
  using crashing_run[of "js ''axios''" noon] broken_image_run[of "js ''axios''" noon]
  by (simp add: crashingEnv_def crashing_outcome brokenImageEnv_def broken_image_outcome
        default_record_fields)

lemma fallbackLoop_chain:
  assumes nothrow: "\<forall>n s e. strategyOutcome (env n) s u \<noteq> Thrown e"
      and "names \<noteq> []"
  shows "\<exists>k r'. 1 \<le> k \<and> k \<le> length names
      \<and> snd (fallbackLoop env u names (m, r) w) = w\<lparr>executed := executed w @ map dispatch (take k names)\<rparr>
      \<and> (\<forall>j. j + 1 < k \<longrightarrow>
            \<not> succeeded (strategyOutcome (env (length (executed w) + j)) (dispatch (names ! j)) u))
      \<and> strategyOutcome (env (length (executed w) + (k - 1))) (dispatch (names ! (k - 1))) u = Returned r'
      \<and> fst (fallbackLoop env u names (m, r) w)
          = Returned (if success r' then (names ! (k - 1), r') else (m, r'))
      \<and> (\<not> success r' \<longrightarrow> k = length names)"
  using assms(2)
proof (induction names arbitrary: r w)
  case Nil
  then show ?case by simp
next
  case (Cons n ns)
  let ?w1 = "w\<lparr>executed := executed w @ [dispatch n]\<rparr>"
  obtain r1 where o: "strategyOutcome (env (length (executed w))) (dispatch n) u = Returned r1"
    using nothrow by (cases "strategyOutcome (env (length (executed w))) (dispatch n) u") auto
  show ?case
  proof (cases "success r1")
    case True
    from fallbackLoop_Cons_success[of env w n u r1 ns m r, OF o True] o True
    show ?thesis by (intro exI[of _ 1] exI[of _ r1]) simp
  next
    case False
    note step = fallbackLoop_Cons_fail[of env w n u r1 ns m r, OF o False]
    show ?thesis
    proof (cases "ns = []")
      case True
      with step o False show ?thesis by (intro exI[of _ 1] exI[of _ r1]) simp
    next
      case ne: False
      from Cons.IH[OF ne, of r1 ?w1] obtain k r' where
        k: "1 \<le> k" "k \<le> length ns" and
        w': "snd (fallbackLoop env u ns (m, r1) ?w1)
               = ?w1\<lparr>executed := executed ?w1 @ map dispatch (take k ns)\<rparr>" and
        before: "\<forall>j. j + 1 < k \<longrightarrow>
            \<not> succeeded (strategyOutcome (env (length (executed ?w1) + j)) (dispatch (ns ! j)) u)" and
        last: "strategyOutcome (env (length (executed ?w1) + (k - 1))) (dispatch (ns ! (k - 1))) u
                 = Returned r'" and
        res: "fst (fallbackLoop env u ns (m, r1) ?w1)
                 = Returned (if success r' then (ns ! (k - 1), r') else (m, r'))" and
        all: "\<not> success r' \<longrightarrow> k = length ns"
        by blast
      have b: "\<forall>j. j + 1 < Suc k \<longrightarrow>
            \<not> succeeded (strategyOutcome (env (length (executed w) + j)) (dispatch ((n # ns) ! j)) u)"
      proof (intro allI impI)
        fix j assume j: "j + 1 < Suc k"
        show "\<not> succeeded (strategyOutcome (env (length (executed w) + j)) (dispatch ((n # ns) ! j)) u)"
        proof (cases j)
          case 0
          with o False show ?thesis by simp
        next
          case (Suc i)
          with j have "i + 1 < k" by simp
          with before have "\<not> succeeded (strategyOutcome (env (length (executed ?w1) + i)) (dispatch (ns ! i)) u)"
            by blast
          with Suc show ?thesis by simp
        qed
      qed
      from k have nth: "(n # ns) ! (Suc k - 1) = ns ! (k - 1)" by (cases k) simp_all
      from k last have l: "strategyOutcome (env (length (executed w) + (Suc k - 1)))
          (dispatch ((n # ns) ! (Suc k - 1))) u = Returned r'"
        unfolding nth by (cases k) simp_all
      show ?thesis
        apply (intro exI[of _ "Suc k"] exI[of _ r'])
        using k w' b l res all unfolding step nth by simp
    qed
  qed
qed

lemma remaining_names:
  assumes "m \<in> set fallbackOrder"
  shows "length (filter (\<lambda>x. x \<noteq> m) fallbackOrder) = 3"
    and "map dispatch (filter (\<lambda>x. x \<noteq> m) fallbackOrder)
           = filter (\<lambda>s. s \<noteq> dispatch m) [Axios, Cloudscraper, Puppeteer, Playwright]"
    and "set (filter (\<lambda>x. x \<noteq> m) fallbackOrder) \<subseteq> set fallbackOrder"
  using assms by (auto simp: fallbackOrder_def dispatch_def)

lemma extractData_try_after_failure:
  assumes miss: "cacheLookup w (cacheKey u method) (nowLookup clk) = None"
      and resolved: "(if method = js ''auto'' then detectBestMethod P u else Returned method) = Returned m"
      and first: "strategyOutcome (env (length (executed w))) (dispatch m) u = Returned (Failure e)"
      and loop: "fallbackLoop env u (filter (\<lambda>x. x \<noteq> m) fallbackOrder) (m, Failure e)
                   (w\<lparr>executed := executed w @ [dispatch m]\<rparr>) = (Returned (m', r'), w2)"
  shows "extractData P env clk w u method =
     (case r' of
        Failure x \<Rightarrow> (Returned (getDefaultData u), w2)
      | Success html finalUrl \<Rightarrow>
          (case processExtractedHTML P html finalUrl of
             Thrown x \<Rightarrow> (Returned (getDefaultData u), w2)
           | Returned d \<Rightarrow>
               (Returned (d\<lparr>extractionMethod := Some m'\<rparr>),
                w2\<lparr>dataCache := (dataCache w2)(cacheKey u method \<mapsto>
                     \<lparr>data = d\<lparr>extractionMethod := Some m'\<rparr>, timestamp = nowStore clk\<rparr>)\<rparr>)))"
  using miss resolved first loop
  by (simp add: extractData_def extractData_try_def runStrategy_def Let_def
        split: fetchResult.splits outcome.splits del: fallbackLoop.simps)

text \<open>
  C3, amended. Take a call that finds no fresh cache entry and whose method is \<open>auto\<close>
  or one of \<open>axios\<close>, \<open>cloudscraper\<close>, \<open>puppeteer\<close>, \<open>playwright\<close>, in which the first
  executed strategy returns a failure and no strategy throws out of its browser
  teardown. Then the strategies executed after the first are a non-empty prefix of the
  fixed order axios, cloudscraper, puppeteer, playwright without the one already tried;
  all of them but the last fail; if the last one fails too, all three were tried and the
  default record is returned; and if it delivers markup and the field extractor
  returns, the record returned carries as \<open>extractionMethod\<close> the name of that last
  strategy.
\<close>

theorem fallback_chain_order:
  assumes miss: "cacheLookup w (cacheKey u method) (nowLookup clk) = None"
      and resolved: "(if method = js ''auto'' then detectBestMethod P u else Returned method) = Returned m"
      and known: "m \<in> set fallbackOrder"
      and first: "strategyOutcome (env (length (executed w))) (dispatch m) u = Returned (Failure e)"
      and nothrow: "\<forall>n s x. strategyOutcome (env n) s u \<noteq> Thrown x"
      and run: "extractData P env clk w u method = (res, w')"
  shows "\<exists>tried. tried \<noteq> []
     \<and> executed w' = executed w @ dispatch m # tried
     \<and> prefix tried (filter (\<lambda>s. s \<noteq> dispatch m) [Axios, Cloudscraper, Puppeteer, Playwright])
     \<and> (\<forall>j. j + 1 < length tried \<longrightarrow>
           \<not> succeeded (strategyOutcome (env (length (executed w) + 1 + j)) (tried ! j) u))
     \<and> (case strategyOutcome (env (length (executed w) + length tried)) (last tried) u of
          Returned (Success html finalUrl) \<Rightarrow>
            (\<exists>name \<in> set fallbackOrder. dispatch name = last tried \<and>
               res = (case processExtractedHTML P html finalUrl of
                        Returned d \<Rightarrow> Returned (d\<lparr>extractionMethod := Some name\<rparr>)
                      | Thrown x \<Rightarrow> Returned (getDefaultData u)))
        | _ \<Rightarrow> length tried = 3 \<and> res = Returned (getDefaultData u))"
proof -
  let ?names = "filter (\<lambda>x. x \<noteq> m) fallbackOrder"
  let ?w1 = "w\<lparr>executed := executed w @ [dispatch m]\<rparr>"
  let ?base = "length (executed w)"
  note rn = remaining_names[OF known]
  from rn(1) have ne: "?names \<noteq> []" by auto
  from fallbackLoop_chain[OF nothrow ne, of m "Failure e" ?w1] obtain k r' where
    k: "1 \<le> k" "k \<le> length ?names" and
    w2: "snd (fallbackLoop env u ?names (m, Failure e) ?w1)
           = ?w1\<lparr>executed := executed ?w1 @ map dispatch (take k ?names)\<rparr>" and
    before: "\<forall>j. j + 1 < k \<longrightarrow>
        \<not> succeeded (strategyOutcome (env (length (executed ?w1) + j)) (dispatch (?names ! j)) u)" and
    last: "strategyOutcome (env (length (executed ?w1) + (k - 1))) (dispatch (?names ! (k - 1))) u
             = Returned r'" and
    result: "fst (fallbackLoop env u ?names (m, Failure e) ?w1)
             = Returned (if success r' then (?names ! (k - 1), r') else (m, r'))" and
    all: "\<not> success r' \<longrightarrow> k = length ?names"
    by blast
  define tried where "tried = map dispatch (take k ?names)"
  define w2 where "w2 = ?w1\<lparr>executed := executed ?w1 @ tried\<rparr>"
  define m' where "m' = (if success r' then ?names ! (k - 1) else m)"
  have len: "length tried = k" using k by (simp add: tried_def)
  have nonempty: "tried \<noteq> []" using len k by auto
  have nth: "\<And>j. j < k \<Longrightarrow> tried ! j = dispatch (?names ! j)"
    using k by (simp add: tried_def)
  have lastt: "last tried = dispatch (?names ! (k - 1))"
    using nonempty len nth[of "k - 1"] k by (simp add: last_conv_nth)
  have pre: "prefix tried (filter (\<lambda>s. s \<noteq> dispatch m) [Axios, Cloudscraper, Puppeteer, Playwright])"
    unfolding tried_def rn(2)[symmetric] take_map[symmetric] by (rule take_is_prefix)
  have fails: "\<forall>j. j + 1 < length tried \<longrightarrow>
      \<not> succeeded (strategyOutcome (env (?base + 1 + j)) (tried ! j) u)"
  proof (intro allI impI)
    fix j assume j: "j + 1 < length tried"
    with len before have "\<not> succeeded (strategyOutcome (env (length (executed ?w1) + j)) (dispatch (?names ! j)) u)"
      by simp
    moreover from j len have "tried ! j = dispatch (?names ! j)" by (intro nth) simp
    ultimately show "\<not> succeeded (strategyOutcome (env (?base + 1 + j)) (tried ! j) u)" by simp
  qed
  have lasto: "strategyOutcome (env (?base + length tried)) (last tried) u = Returned r'"
    using last k unfolding lastt len by (cases k) simp_all
  have loop: "fallbackLoop env u ?names (m, Failure e) ?w1 = (Returned (m', r'), w2)"
    using w2 result by (simp add: prod_eq_iff w2_def tried_def m'_def)
  have ex2: "executed w2 = executed w @ dispatch m # tried" by (simp add: w2_def)
  note ed = extractData_try_after_failure[OF miss resolved first loop]
  have final: "case strategyOutcome (env (?base + length tried)) (last tried) u of
          Returned (Success html finalUrl) \<Rightarrow>
            (\<exists>name \<in> set fallbackOrder. dispatch name = last tried \<and>
               res = (case processExtractedHTML P html finalUrl of
                        Returned d \<Rightarrow> Returned (d\<lparr>extractionMethod := Some name\<rparr>)
                      | Thrown x \<Rightarrow> Returned (getDefaultData u)))
        | _ \<Rightarrow> length tried = 3 \<and> res = Returned (getDefaultData u)"
  proof (cases r')
    case (Failure x)
    with all rn(1) len have "length tried = 3" by simp
    moreover from ed run Failure have "res = Returned (getDefaultData u)" by simp
    ultimately show ?thesis unfolding lasto using Failure by simp
  next
    case (Success html finalUrl)
    then have m': "m' = ?names ! (k - 1)" by (simp add: m'_def)
    from k have "?names ! (k - 1) \<in> set ?names" by (intro nth_mem) simp
    with rn(3) have mem: "m' \<in> set fallbackOrder" unfolding m' by blast
    have d: "dispatch m' = last tried" unfolding m' lastt ..
    from ed run Success have
      "res = (case processExtractedHTML P html finalUrl of
                Returned d \<Rightarrow> Returned (d\<lparr>extractionMethod := Some m'\<rparr>)
              | Thrown x \<Rightarrow> Returned (getDefaultData u))"
      by (simp split: outcome.splits)
    with mem d show ?thesis unfolding lasto using Success by auto
  qed
  have "executed w' = executed w2"
    using ed run by (auto split: fetchResult.splits outcome.splits)
  with ex2 have "executed w' = executed w @ dispatch m # tried" by simp
  with nonempty pre fails final show ?thesis by blast
qed

theorem fallback_chain_order_witness:
  "cacheLookup emptyWorld (cacheKey exampleUrl (js ''auto'')) (nowLookup noon) = None
   \<and> detectBestMethod examplePlatform exampleUrl = Returned (js ''axios'')
   \<and> strategyOutcome (cloudflareEnv 0) Axios exampleUrl = Returned (Failure (js ''connect ECONNREFUSED''))
   \<and> extractData examplePlatform cloudflareEnv noon emptyWorld exampleUrl (js ''auto'')
       = (Returned (exampleRecord\<lparr>extractionMethod := Some (js ''cloudscraper'')\<rparr>),
          \<lparr>dataCache = [cacheKey exampleUrl (js ''auto'') \<mapsto>
              \<lparr>data = exampleRecord\<lparr>extractionMethod := Some (js ''cloudscraper'')\<rparr>,
                timestamp = nowStore noon\<rparr>],
            executed = [Axios, Cloudscraper]\<rparr>)"
proof -
  have m: "cacheLookup emptyWorld (cacheKey exampleUrl (js ''auto'')) (nowLookup noon) = None"
    by (rule empty_miss)
  have r: "(if js ''auto'' = js ''auto'' then detectBestMethod examplePlatform exampleUrl
            else Returned (js ''auto'')) = Returned (js ''axios'')"
    by (simp add: example_auto)
  have kn: "js ''axios'' \<in> set fallbackOrder" by (simp add: fallbackOrder_def)
  have f: "strategyOutcome (cloudflareEnv (length (executed emptyWorld))) (dispatch (js ''axios'')) exampleUrl
             = Returned (Failure (js ''connect ECONNREFUSED''))"
    by (simp add: cloudflareEnv_def cloudflare_outcome dispatch_def)
  have nt: "\<forall>n s x. strategyOutcome (cloudflareEnv n) s exampleUrl \<noteq> Thrown x"
    by (simp add: cloudflareEnv_def cloudflare_outcome)
  have run: "extractData examplePlatform cloudflareEnv noon emptyWorld exampleUrl (js ''auto'')
       = (Returned (exampleRecord\<lparr>extractionMethod := Some (js ''cloudscraper'')\<rparr>),
          \<lparr>dataCache = [cacheKey exampleUrl (js ''auto'') \<mapsto>
              \<lparr>data = exampleRecord\<lparr>extractionMethod := Some (js ''cloudscraper'')\<rparr>,
                timestamp = nowStore noon\<rparr>],
            executed = [Axios, Cloudscraper]\<rparr>)"
    using cloudflare_try[of "js ''auto''" noon] by (simp add: extractData_def)
  from m run fallback_chain_order[OF m r kn f nt run] show ?thesis
    by (simp add: example_auto cloudflareEnv_def cloudflare_outcome)
qed

end
